theory Spec2Isabelle
  imports Complex_Main
begin

section \<open>Strings and numbers of the host language\<close>

text \<open>
  Strings are lists of code units; the model covers the code units 0 to 255. Numbers that
  the program reads out of documents (minutes, priorities, difficulties, energy levels) are
  integers; the program's comparisons against products with the constants 1.2, 0.8 and 0.5
  are written over the reals, which agrees with the program's double arithmetic on integers
  of the size a duration can have. A number that the generative service proposes as a
  duration is a decimal, whole or fractional, as a JSON text carries it.
\<close>

definition is_digit :: "char \<Rightarrow> bool" where
  "is_digit c = (let n = (of_char c :: nat) in 48 \<le> n \<and> n \<le> 57)"

text \<open>The class \<open>\s\<close> of the regular expressions: tab, line feed, vertical tab, form
  feed, carriage return, space and the no-break space.\<close>

definition is_space :: "char \<Rightarrow> bool" where
  "is_space c = (let n = (of_char c :: nat) in (9 \<le> n \<and> n \<le> 13) \<or> n = 32 \<or> n = 160)"

text \<open>The class \<open>\w\<close>: letters, digits and the underscore.\<close>

definition is_word_char :: "char \<Rightarrow> bool" where
  "is_word_char c = (let n = (of_char c :: nat) in
     (48 \<le> n \<and> n \<le> 57) \<or> (65 \<le> n \<and> n \<le> 90) \<or> n = 95 \<or> (97 \<le> n \<and> n \<le> 122))"

definition lower_char :: "char \<Rightarrow> char" where
  "lower_char c = (let n = (of_char c :: nat) in
     if (65 \<le> n \<and> n \<le> 90) \<or> (192 \<le> n \<and> n \<le> 222 \<and> n \<noteq> 215)
     then char_of (n + 32) else c)"

definition upper_char :: "char \<Rightarrow> char" where
  "upper_char c = (let n = (of_char c :: nat) in
     if (97 \<le> n \<and> n \<le> 122) \<or> (224 \<le> n \<and> n \<le> 254 \<and> n \<noteq> 247)
     then char_of (n - 32) else c)"

definition toLowerCase :: "string \<Rightarrow> string" where
  "toLowerCase s = map lower_char s"

text \<open>Matching a lower-case letter of a pattern under the flag \<open>i\<close>: only the letter
  itself and its upper-case form match.\<close>

definition ci_match :: "char \<Rightarrow> char \<Rightarrow> bool" where
  "ci_match p c = (c = p \<or> (let n = (of_char c :: nat) in 65 \<le> n \<and> n \<le> 90 \<and> char_of (n + 32) = p))"

fun starts_with_ci :: "string \<Rightarrow> string \<Rightarrow> bool" where
  "starts_with_ci [] s = True"
| "starts_with_ci (p # ps) [] = False"
| "starts_with_ci (p # ps) (c # cs) = (ci_match p c \<and> starts_with_ci ps cs)"

fun starts_with :: "string \<Rightarrow> string \<Rightarrow> bool" where
  "starts_with [] s = True"
| "starts_with (p # ps) [] = False"
| "starts_with (p # ps) (c # cs) = (p = c \<and> starts_with ps cs)"

text \<open>\<open>s.includes(k)\<close>: \<open>k\<close> occurs in \<open>s\<close> as a contiguous piece.\<close>

fun includes_str :: "string \<Rightarrow> string \<Rightarrow> bool" where
  "includes_str [] k = (k = [])"
| "includes_str (c # cs) k = (starts_with k (c # cs) \<or> includes_str cs k)"

text \<open>\<open>s.split(' ')\<close>: the pieces between single spaces, empty pieces kept.\<close>

fun split_space :: "string \<Rightarrow> string list" where
  "split_space [] = [[]]"
| "split_space (c # cs) =
     (if c = CHR '' '' then [] # split_space cs
      else (case split_space cs of [] \<Rightarrow> [[c]] | w # ws \<Rightarrow> (c # w) # ws))"

text \<open>\<open>s.split(/\W+/)\<close> and \<open>s.split(/\s+/)\<close>: the pieces between maximal runs of
  separator characters, an empty piece where the string starts or ends with a separator.\<close>

fun split_runs :: "(char \<Rightarrow> bool) \<Rightarrow> string \<Rightarrow> string list" where
  "split_runs sep [] = [[]]"
| "split_runs sep [c] = (if sep c then [[], []] else [[c]])"
| "split_runs sep (c # d # cs) =
     (if sep c then (if sep d then split_runs sep (d # cs) else [] # split_runs sep (d # cs))
      else (case split_runs sep (d # cs) of [] \<Rightarrow> [[c]] | w # ws \<Rightarrow> (c # w) # ws))"

text \<open>Decimal digits of a number, and the text of an integer in a template string.\<close>

definition digit_char :: "nat \<Rightarrow> char" where
  "digit_char d = char_of (48 + d)"

fun nat_digits :: "nat \<Rightarrow> string" where
  "nat_digits n = (if n < 10 then [digit_char n] else nat_digits (n div 10) @ [digit_char (n mod 10)])"

declare nat_digits.simps [simp del]

text \<open>
  A number of a JSON text: \<open>Decimal m k\<close> is \<open>m\<close> divided by the \<open>k\<close>-th power of ten, so
  24.75 is \<open>Decimal 2475 2\<close> and 120 is \<open>Decimal 120 0\<close>. The host holds it as a double and
  writes it back with the fewest digits that identify the double; for a decimal of at most
  15 significant digits these are the digits of the decimal itself, without the zeros at its
  end.
\<close>

datatype js_number = Decimal int nat

text \<open>\<open>Math.min(c, x)\<close> for a whole constant \<open>c\<close>.\<close>

definition js_min :: "int \<Rightarrow> js_number \<Rightarrow> js_number" where
  "js_min c x = (case x of Decimal m k \<Rightarrow> if m < c * 10 ^ k then x else Decimal c 0)"

definition strip_zeros :: "string \<Rightarrow> string" where
  "strip_zeros ds = rev (dropWhile (\<lambda>c. c = CHR ''0'') (rev ds))"

text \<open>
  The text of a positive number in a template string. With \<open>s\<close> the digits without the
  zeros at the end, \<open>K\<close> their count and \<open>n\<close> the place of the decimal point counted from
  the first digit: the digits and \<open>n - K\<close> zeros when \<open>K \<le> n \<le> 21\<close>; the digits with a
  point after the first \<open>n\<close> when \<open>0 < n \<le> 21\<close>; \<open>0.\<close>, \<open>-n\<close> zeros and the digits when
  \<open>-6 < n \<le> 0\<close>; and the exponent form otherwise.
\<close>

definition positive_text :: "nat \<Rightarrow> nat \<Rightarrow> string" where
  "positive_text m k =
     (let ds = nat_digits m;
          s = strip_zeros ds;
          K = int (length s);
          n = int (length ds) - int k
      in if K \<le> n \<and> n \<le> 21 then s @ replicate (nat (n - K)) CHR ''0''
         else if 0 < n \<and> n \<le> 21 then take (nat n) s @ ''.'' @ drop (nat n) s
         else if - 6 < n \<and> n \<le> 0 then ''0.'' @ replicate (nat (- n)) CHR ''0'' @ s
         else (let e = n - 1;
                   ex = (if 0 < e then ''+'' else ''-'') @ nat_digits (nat \<bar>e\<bar>)
               in if K = 1 then s @ ''e'' @ ex
                  else take 1 s @ ''.'' @ drop 1 s @ ''e'' @ ex))"

definition number_text :: "js_number \<Rightarrow> string" where
  "number_text x =
     (case x of Decimal m k \<Rightarrow>
        if m = 0 then ''0''
        else if m < 0 then CHR ''-'' # positive_text (nat (- m)) k
        else positive_text (nat m) k)"

text \<open>\<open>parseInt\<close> on a run of decimal digits.\<close>

definition digit_val :: "char \<Rightarrow> nat" where
  "digit_val c = of_char c - 48"

definition parseInt :: "string \<Rightarrow> nat" where
  "parseInt ds = foldl (\<lambda>acc c. 10 * acc + digit_val c) 0 ds"

section \<open>Task Intelligence: parsing a time\<close>

text \<open>
  \<open>timeStr.match(/(\d+)\s*(minute|hour|min|hr)/i)\<close>. A match that starts at a given
  digit takes the whole run of digits and the whole run of white space after it: after
  fewer digits the next character is a digit, after fewer spaces it is a space, and neither
  starts a unit. The alternatives of the unit are tried in the order of the pattern.
\<close>

definition match_unit :: "string \<Rightarrow> string option" where
  "match_unit s =
     (if starts_with_ci ''minute'' s then Some ''minute''
      else if starts_with_ci ''hour'' s then Some ''hour''
      else if starts_with_ci ''min'' s then Some ''min''
      else if starts_with_ci ''hr'' s then Some ''hr''
      else None)"

definition match_here :: "string \<Rightarrow> (string \<times> string) option" where
  "match_here s =
     (let ds = takeWhile is_digit s in
      if ds = [] then None
      else (case match_unit (dropWhile is_space (dropWhile is_digit s)) of
              None \<Rightarrow> None
            | Some u \<Rightarrow> Some (ds, u)))"

text \<open>The leftmost match: the two groups, or nothing.\<close>

fun regex_match :: "string \<Rightarrow> (string \<times> string) option" where
  "regex_match [] = None"
| "regex_match (c # cs) =
     (case match_here (c # cs) of Some m \<Rightarrow> Some m | None \<Rightarrow> regex_match cs)"

definition parseTimeToMinutes :: "string \<Rightarrow> nat" where
  "parseTimeToMinutes timeStr =
     (case regex_match timeStr of
        None \<Rightarrow> 30
      | Some (digits, unit) \<Rightarrow>
          (let v = parseInt digits in
           if starts_with ''hour'' unit \<or> starts_with ''hr'' unit then v * 60 else v))"

section \<open>The roadmap document\<close>

text \<open>
  A frontier node as the documents hold it. Fields that the program reads through a default
  (\<open>x || d\<close>) or a truthiness test are optional; a missing \<open>completed\<close> or
  \<open>generated\<close> flag reads as false. Where a missing text is put into a string, the
  program gets the text \<open>undefined\<close>.
\<close>

record node =
  id_node :: string
  title :: string
  description :: "string option"
  branch :: "string option"
  difficulty :: "int option"
  duration :: "string option"
  priority :: "int option"
  prerequisites :: "string list option"
  completed :: bool
  generated :: bool
  opportunityType :: "string option"
  learningOutcome :: "string option"

record hta_data =
  frontierNodes :: "node list option"

record project_context =
  pc_goal :: "string option"
  pc_domain :: "string option"

definition js_text :: "string option \<Rightarrow> string" where
  "js_text x = (case x of None \<Rightarrow> ''undefined'' | Some s \<Rightarrow> s)"

text \<open>\<open>(await load(...)) || {}\<close>: a document that is not found reads as the empty object.\<close>

definition hta_or_empty :: "hta_data option \<Rightarrow> hta_data" where
  "hta_or_empty loaded = (case loaded of None \<Rightarrow> \<lparr>frontierNodes = None\<rparr> | Some h \<Rightarrow> h)"

text \<open>\<open>htaData.frontierNodes || []\<close>\<close>

definition nodes_of :: "hta_data \<Rightarrow> node list" where
  "nodes_of htaData = (case frontierNodes htaData of None \<Rightarrow> [] | Some ns \<Rightarrow> ns)"

text \<open>\<open>node.duration || '30 minutes'\<close>: a missing and an empty text are both falsy.\<close>

definition duration_or_default :: "node \<Rightarrow> string" where
  "duration_or_default n =
     (case duration n of None \<Rightarrow> ''30 minutes'' | Some d \<Rightarrow> if d = [] then ''30 minutes'' else d)"

section \<open>Task Intelligence: selecting the next task\<close>

definition completedNodeIds :: "node list \<Rightarrow> string set" where
  "completedNodeIds nodes = set (map id_node (filter completed nodes))"

fun nodesByTitle_loop :: "node list \<Rightarrow> (string \<rightharpoonup> node) \<Rightarrow> (string \<rightharpoonup> node)" where
  "nodesByTitle_loop [] m = m"
| "nodesByTitle_loop (n # ns) m =
     nodesByTitle_loop ns (if completed n then m(title n \<mapsto> n) else m)"

definition nodesByTitle :: "node list \<Rightarrow> (string \<rightharpoonup> node)" where
  "nodesByTitle nodes = nodesByTitle_loop nodes Map.empty"

text \<open>The loop over the prerequisites, which stops at the first one that is not met.\<close>

fun prerequisitesMet :: "string set \<Rightarrow> (string \<rightharpoonup> node) \<Rightarrow> string list \<Rightarrow> bool" where
  "prerequisitesMet ids byTitle [] = True"
| "prerequisitesMet ids byTitle (prereq # ps) =
     (if prereq \<notin> ids \<and> byTitle prereq = None then False
      else prerequisitesMet ids byTitle ps)"

definition too_long :: "string \<Rightarrow> node \<Rightarrow> bool" where
  "too_long timeAvailable n =
     (let timeInMinutes = parseTimeToMinutes timeAvailable;
          taskMinutes = parseTimeToMinutes (duration_or_default n)
      in real taskMinutes > real timeInMinutes * 1.2)"

text \<open>The filter loop that fills \<open>availableTasks\<close>: one pass over the nodes, each
  \<open>continue\<close> a branch.\<close>

fun admit_loop ::
  "string set \<Rightarrow> (string \<rightharpoonup> node) \<Rightarrow> string \<Rightarrow> node list \<Rightarrow> node list" where
  "admit_loop ids byTitle timeAvailable [] = []"
| "admit_loop ids byTitle timeAvailable (n # ns) =
     (if completed n then admit_loop ids byTitle timeAvailable ns
      else if (case prerequisites n of None \<Rightarrow> False
               | Some ps \<Rightarrow> ps \<noteq> [] \<and> \<not> prerequisitesMet ids byTitle ps)
        then admit_loop ids byTitle timeAvailable ns
      else if too_long timeAvailable n then admit_loop ids byTitle timeAvailable ns
      else n # admit_loop ids byTitle timeAvailable ns)"

definition admitted :: "hta_data \<Rightarrow> string \<Rightarrow> node list" where
  "admitted htaData timeAvailable =
     (let nodes = nodes_of htaData
      in admit_loop (completedNodeIds nodes) (nodesByTitle nodes) timeAvailable nodes)"

definition task_text :: "node \<Rightarrow> string" where
  "task_text task = toLowerCase (title task @ '' '' @ js_text (description task))"

definition isDomainRelevant :: "node \<Rightarrow> project_context \<Rightarrow> bool" where
  "isDomainRelevant task projectContext =
     (let taskText = task_text task;
          domainText = toLowerCase (js_text (pc_goal projectContext) @ '' '' @ js_text (pc_domain projectContext));
          domainKeywords =
            filter (\<lambda>word. word \<notin> set [''research'', ''learning'', ''study'', ''project''])
              (filter (\<lambda>word. length word > 3) (split_space domainText))
      in list_ex (\<lambda>keyword. includes_str taskText keyword) domainKeywords)"

definition isContextRelevant :: "node \<Rightarrow> string \<Rightarrow> bool" where
  "isContextRelevant task context =
     (let taskText = task_text task;
          contextLower = toLowerCase context;
          keywords = filter (\<lambda>word. length word > 3)
                       (split_runs (\<lambda>c. \<not> is_word_char c) contextLower)
      in list_ex (\<lambda>keyword. includes_str taskText keyword) keywords)"

definition time_fit :: "nat \<Rightarrow> nat \<Rightarrow> int" where
  "time_fit timeInMinutes taskDuration =
     (if real timeInMinutes \<ge> real taskDuration then 50
      else if real timeInMinutes \<ge> real taskDuration * 0.8 then 20
      else if real timeInMinutes \<ge> real taskDuration * 0.5 then - 20
      else - 100)"

definition calculateTaskScore :: "node \<Rightarrow> int \<Rightarrow> nat \<Rightarrow> string \<Rightarrow> project_context \<Rightarrow> int" where
  "calculateTaskScore task energyLevel timeInMinutes contextFromMemory projectContext =
     (let score0 = (case priority task of None \<Rightarrow> 200 | Some p \<Rightarrow> if p = 0 then 200 else p);
          taskDifficulty = (case difficulty task of None \<Rightarrow> 3 | Some d \<Rightarrow> if d = 0 then 3 else d);
          energyMatch = 5 - \<bar>energyLevel - taskDifficulty\<bar>;
          score1 = score0 + energyMatch * 20;
          taskDuration = parseTimeToMinutes (duration_or_default task);
          score2 = score1 + time_fit timeInMinutes taskDuration;
          score3 = (if isDomainRelevant task projectContext then score2 + 100 else score2);
          score4 = (if contextFromMemory \<noteq> [] \<and> isContextRelevant task contextFromMemory
                    then score3 + 50 else score3);
          score5 = (if opportunityType task = Some ''breakthrough_amplification''
                    then score4 + 100 else score4);
          score6 = (if generated task then score5 + 25 else score5)
      in score6)"

text \<open>The scoring loop: \<open>best\<close> is the pair of \<open>bestTask\<close> and \<open>bestScore\<close>, empty while
  \<open>bestScore\<close> is minus infinity.\<close>

fun best_loop ::
  "int \<Rightarrow> nat \<Rightarrow> string \<Rightarrow> project_context \<Rightarrow> (node \<times> int) option \<Rightarrow> node list \<Rightarrow> (node \<times> int) option" where
  "best_loop e t c p best [] = best"
| "best_loop e t c p best (task # tasks) =
     (let score = calculateTaskScore task e t c p in
      if (case best of None \<Rightarrow> True | Some (bestTask, bestScore) \<Rightarrow> score > bestScore)
      then best_loop e t c p (Some (task, score)) tasks
      else best_loop e t c p best tasks)"

text \<open>The result is the chosen node together with its score, or nothing.\<close>

definition selectOptimalTask ::
  "hta_data \<Rightarrow> int \<Rightarrow> string \<Rightarrow> string \<Rightarrow> project_context \<Rightarrow> (node \<times> int) option" where
  "selectOptimalTask htaData energyLevel timeAvailable contextFromMemory projectContext =
     (let availableTasks = admitted htaData timeAvailable in
      if availableTasks = [] then None
      else best_loop energyLevel (parseTimeToMinutes timeAvailable) contextFromMemory projectContext
             None availableTasks)"

section \<open>Task Intelligence: strategy evolution\<close>

text \<open>
  A completion in the learning history: \<open>completedAt\<close> is the time in milliseconds that
  \<open>new Date(t.completedAt)\<close> gives, absent when the date is invalid or missing (the
  difference is then not a number and no comparison holds).
\<close>

record completed_topic =
  completedAt :: "int option"
  energyAfter :: "int option"

record learning_history =
  completedTopics :: "completed_topic list option"

definition history_or_empty :: "learning_history option \<Rightarrow> learning_history" where
  "history_or_empty loaded = (case loaded of None \<Rightarrow> \<lparr>completedTopics = None\<rparr> | Some l \<Rightarrow> l)"

record config =
  goal :: "string option"
  specific_interests :: "string list option"
  knowledge_level :: "int option"

record feedback_analysis =
  sentiment :: string
  keywords_fb :: "string list"
  original :: "string option"

record analysis =
  completedTasks :: nat
  totalTasks :: nat
  availableTasks :: nat
  stuckIndicators :: "string list"
  userFeedback :: feedback_analysis
  recommendedEvolution :: "string option"

definition getAvailableTasksCount :: "hta_data \<Rightarrow> nat" where
  "getAvailableTasksCount htaData =
     (let nodes = nodes_of htaData;
          completedNodeIds = map id_node (filter completed nodes)
      in length (filter (\<lambda>node.
           if completed node then False
           else (case prerequisites node of
                   None \<Rightarrow> True
                 | Some ps \<Rightarrow>
                     if ps \<noteq> [] then
                       list_all (\<lambda>prereq. prereq \<in> set completedNodeIds \<or>
                                   list_ex (\<lambda>n. title n = prereq \<and> completed n) nodes) ps
                     else True)) nodes))"

text \<open>\<open>now\<close> is the value of \<open>Date.now()\<close>, in milliseconds.\<close>

definition recentCompletions :: "learning_history \<Rightarrow> int \<Rightarrow> completed_topic list" where
  "recentCompletions learningHistory now =
     (case completedTopics learningHistory of
        None \<Rightarrow> []
      | Some ts \<Rightarrow>
          filter (\<lambda>t. case completedAt t of
                         None \<Rightarrow> False
                       | Some ms \<Rightarrow> real_of_int (now - ms) / (1000 * 60 * 60 * 24) \<le> 7) ts)"

definition avgEngagement :: "completed_topic list \<Rightarrow> real" where
  "avgEngagement recent =
     real_of_int (foldl (\<lambda>sum c. sum + (case energyAfter c of None \<Rightarrow> 3
                                          | Some e \<Rightarrow> if e = 0 then 3 else e)) 0 recent)
       / real (max (length recent) 1)"

definition detectStuckIndicators :: "hta_data \<Rightarrow> learning_history \<Rightarrow> int \<Rightarrow> string list" where
  "detectStuckIndicators htaData learningHistory now =
     (let indicators1 = (if getAvailableTasksCount htaData = 0 then [''no_available_tasks''] else []);
          recent = recentCompletions learningHistory now;
          indicators2 = (if length recent = 0 then indicators1 @ [''no_recent_progress'']
                         else indicators1);
          indicators3 = (if avgEngagement recent < 2.5 then indicators2 @ [''low_engagement'']
                         else indicators2)
      in indicators3)"

definition positiveWords :: "string list" where
  "positiveWords = [''great'', ''interesting'', ''progress'', ''excellent'', ''perfect'',
                    ''energized'', ''proud'', ''good'', ''working'']"

definition negativeWords :: "string list" where
  "negativeWords = [''boring'', ''stuck'', ''difficult'', ''difficulty'', ''frustrated'',
                    ''overwhelmed'', ''bad'', ''problem'']"

definition analyzeFeedback :: "string \<Rightarrow> feedback_analysis" where
  "analyzeFeedback feedback =
     (if feedback = [] then \<lparr>sentiment = ''neutral'', keywords_fb = [], original = None\<rparr>
      else
        (let feedbackLower = toLowerCase feedback;
             positiveCount = length (filter (\<lambda>w. includes_str feedbackLower w) positiveWords);
             negativeCount = length (filter (\<lambda>w. includes_str feedbackLower w) negativeWords);
             s = (if positiveCount > negativeCount then ''positive''
                  else if negativeCount > positiveCount then ''negative''
                  else ''neutral'')
         in \<lparr>sentiment = s,
             keywords_fb = filter (\<lambda>word. length word > 3) (split_runs is_space feedback),
             original = Some feedback\<rparr>))"

definition determineEvolutionStrategy :: "analysis \<Rightarrow> string" where
  "determineEvolutionStrategy a =
     (if ''no_available_tasks'' \<in> set (stuckIndicators a) then ''generate_new_tasks''
      else if ''low_engagement'' \<in> set (stuckIndicators a) then ''increase_variety_and_interest''
      else if sentiment (userFeedback a) = ''negative'' then ''address_user_concerns''
      else if availableTasks a < 3 then ''expand_task_frontier''
      else ''optimize_existing_sequence'')"

definition analyzeCurrentStrategy ::
  "hta_data option \<Rightarrow> learning_history option \<Rightarrow> int \<Rightarrow> string \<Rightarrow> analysis" where
  "analyzeCurrentStrategy loadedHta loadedHistory now feedback =
     (let htaData = hta_or_empty loadedHta;
          learningHistory = history_or_empty loadedHistory;
          a = \<lparr>completedTasks = length (filter completed (nodes_of htaData)),
               totalTasks = length (nodes_of htaData),
               availableTasks = getAvailableTasksCount htaData,
               stuckIndicators = detectStuckIndicators htaData learningHistory now,
               userFeedback = analyzeFeedback feedback,
               recommendedEvolution = None\<rparr>
      in a\<lparr>recommendedEvolution := Some (determineEvolutionStrategy a)\<rparr>)"

definition generateExplorationTasks :: "string option \<Rightarrow> nat \<Rightarrow> node list" where
  "generateExplorationTasks configGoal startId =
     (let goal = (case configGoal of None \<Rightarrow> ''learning'' | Some g \<Rightarrow> if g = [] then ''learning'' else g)
      in [\<lparr>id_node = ''explore_'' @ nat_digits startId,
           title = ''Explore: What's Next in '' @ goal,
           description = Some ''Open exploration of next steps and possibilities'',
           branch = Some ''exploration'',
           difficulty = Some 1,
           duration = Some ''15 minutes'',
           priority = Some 250,
           prerequisites = None,
           completed = False,
           generated = True,
           opportunityType = None,
           learningOutcome = Some ''Clarity on next learning directions''\<rparr>,
          \<lparr>id_node = ''sample_'' @ nat_digits (startId + 1),
           title = ''Sample: Try Something Different'',
           description = Some ''Experiment with a new approach or technique'',
           branch = Some ''experimentation'',
           difficulty = Some 2,
           duration = Some ''25 minutes'',
           priority = Some 240,
           prerequisites = None,
           completed = False,
           generated = True,
           opportunityType = None,
           learningOutcome = Some ''Experience with alternative approaches''\<rparr>])"

definition interest_task :: "nat \<Rightarrow> nat \<Rightarrow> string \<Rightarrow> node" where
  "interest_task startId i interest =
     \<lparr>id_node = ''interest_'' @ nat_digits (startId + i),
      title = ''Focus: '' @ interest,
      description = Some (''Dedicated work on your specific interest: '' @ interest),
      branch = Some ''interests'',
      difficulty = Some 2,
      duration = Some ''30 minutes'',
      priority = Some 300,
      prerequisites = None,
      completed = False,
      generated = True,
      opportunityType = None,
      learningOutcome = Some (''Progress in '' @ interest)\<rparr>"

text \<open>The loop \<open>for (i = 0; i < Math.min(3, interests.length); i++)\<close>.\<close>

definition generateInterestBasedTasks :: "config \<Rightarrow> nat \<Rightarrow> node list" where
  "generateInterestBasedTasks cfg startId =
     (let interests = (case specific_interests cfg of None \<Rightarrow> [] | Some xs \<Rightarrow> xs)
      in map (\<lambda>i. interest_task startId i (interests ! i)) [0 ..< min 3 (length interests)])"

definition generateConcernAddressingTasks :: "feedback_analysis \<Rightarrow> nat \<Rightarrow> node list" where
  "generateConcernAddressingTasks feedback startId =
     [\<lparr>id_node = ''address_'' @ nat_digits startId,
       title = ''Address: Current Challenge'',
       description = Some (''Work on overcoming the challenge: '' @ js_text (original feedback)),
       branch = Some ''problem_solving'',
       difficulty = Some 1,
       duration = Some ''20 minutes'',
       priority = Some 280,
       prerequisites = None,
       completed = False,
       generated = True,
       opportunityType = None,
       learningOutcome = Some ''Resolution of current learning obstacle''\<rparr>]"

definition generateProgressiveTasks :: "hta_data \<Rightarrow> nat \<Rightarrow> node list" where
  "generateProgressiveTasks htaData startId =
     (let completedTasks = filter completed (nodes_of htaData) in
      if completedTasks = [] then generateExplorationTasks (Some ''general learning'') startId
      else
        (let lastCompleted = last completedTasks in
         [\<lparr>id_node = ''build_'' @ nat_digits startId,
           title = ''Build On: '' @ title lastCompleted,
           description = Some (''Continue building on the foundation from '' @ title lastCompleted),
           branch = Some (case branch lastCompleted of None \<Rightarrow> ''progression''
                          | Some b \<Rightarrow> if b = [] then ''progression'' else b),
           difficulty = Some (min 5 ((case difficulty lastCompleted of None \<Rightarrow> 3
                                       | Some d \<Rightarrow> if d = 0 then 3 else d) + 1)),
           duration = Some ''35 minutes'',
           priority = Some 270,
           prerequisites = Some [id_node lastCompleted],
           completed = False,
           generated = True,
           opportunityType = None,
           learningOutcome = Some (''Advanced understanding beyond '' @ title lastCompleted)\<rparr>]))"

definition generateBalancedTasks :: "config \<Rightarrow> hta_data \<Rightarrow> nat \<Rightarrow> node list" where
  "generateBalancedTasks cfg htaData startId = []"

definition generateSmartNextTasks :: "config \<Rightarrow> hta_data option \<Rightarrow> analysis \<Rightarrow> node list" where
  "generateSmartNextTasks cfg loadedHta a =
     (let htaData = hta_or_empty loadedHta;
          taskId = length (nodes_of htaData) + 3000;
          strategy = recommendedEvolution a;
          newTasks =
            (if strategy = Some ''generate_new_tasks'' then generateExplorationTasks (goal cfg) taskId
             else if strategy = Some ''increase_variety_and_interest'' then generateInterestBasedTasks cfg taskId
             else if strategy = Some ''address_user_concerns''
               then generateConcernAddressingTasks (userFeedback a) taskId
             else if strategy = Some ''expand_task_frontier'' then generateProgressiveTasks htaData taskId
             else generateBalancedTasks cfg htaData taskId)
      in take 5 newTasks)"

text \<open>
  The documents of the active project, as the persistence layer holds them. A load gives
  the document or nothing; within one operation every load of a document gives the same
  value. A save that fails leaves the store as it was and is not reported.
\<close>

record project_store =
  st_config :: "config option"
  st_hta :: "hta_data option"
  st_history :: "learning_history option"
  st_write_fails :: bool

datatype error = ConfigurationMissing

record evolution_result =
  strategy_analysis :: analysis
  new_tasks :: "node list"

definition evolveStrategy ::
  "project_store \<Rightarrow> int \<Rightarrow> string \<Rightarrow> (error + evolution_result) \<times> project_store" where
  "evolveStrategy st now feedback =
     (case st_config st of
        None \<Rightarrow> (Inl ConfigurationMissing, st)
      | Some cfg \<Rightarrow>
          (let a = analyzeCurrentStrategy (st_hta st) (st_history st) now feedback;
               newTasks = generateSmartNextTasks cfg (st_hta st) a;
               st' = (if length newTasks > 0 then
                        (let htaData = hta_or_empty (st_hta st);
                             htaData' = htaData\<lparr>frontierNodes := Some (nodes_of htaData @ newTasks)\<rparr>
                         in if st_write_fails st then st else st\<lparr>st_hta := Some htaData'\<rparr>)
                      else st)
           in (Inr \<lparr>strategy_analysis = a, new_tasks = newTasks\<rparr>, st')))"

section \<open>HTA Tree Builder\<close>

text \<open>
  The generative service. A call gives no response object, a request to generate out of
  band (\<open>request_for_claude\<close>), or a text, which \<open>JSON.parse\<close> rejects, reads as
  something that is not an array, or reads as an array. An answer that carries no text reads
  as the empty array. The prompts only reach the service, so the service is a function from
  the number of the call to its response, and the parameters of the builder that only go
  into a prompt (interests, learning style, context, goal) are left out. The elements of a
  task array are objects; the elements of a domain array are texts.
\<close>

datatype 'a parsed = Unparseable | NotAnArray | JsonArray "'a list"

datatype 'a ai_response = NoResponse | RequestForClaude | Answer "'a parsed"

datatype js_duration = DurationNumber js_number | DurationText string | DurationMissing

record ai_task =
  t_title :: string
  t_description :: "string option"
  t_difficulty :: "int option"
  t_duration :: js_duration
  t_prerequisites :: "string list option"
  t_opportunityType :: "string option"

record sub_branch =
  sb_id :: string
  sb_title :: string
  sb_description :: string

record strategic_branch =
  b_id :: string
  b_title :: string
  b_priority :: string
  b_completed :: bool
  b_description :: string
  expected_duration :: string
  subBranches :: "sub_branch list"

record pending_request =
  pr_type :: string
  pr_branchId :: string
  pr_pathName :: string

definition estimateDuration :: "int \<Rightarrow> string" where
  "estimateDuration knowledgeLevel =
     (if knowledgeLevel \<le> 2 then ''0-3 months''
      else if knowledgeLevel \<le> 4 then ''2-6 months''
      else if knowledgeLevel \<le> 6 then ''4-9 months''
      else ''6-12+ months'')"

text \<open>\<open>s.replace(/[^a-z0-9]+/g, '_')\<close> and \<open>s.replace(/_+/g, '_')\<close>: every maximal run of
  characters of the class becomes one underscore.\<close>

fun replace_runs :: "(char \<Rightarrow> bool) \<Rightarrow> string \<Rightarrow> string" where
  "replace_runs cls [] = []"
| "replace_runs cls [c] = (if cls c then ''_'' else [c])"
| "replace_runs cls (c # d # cs) =
     (if cls c then (if cls d then replace_runs cls (d # cs) else CHR ''_'' # replace_runs cls (d # cs))
      else c # replace_runs cls (d # cs))"

definition is_slug_char :: "char \<Rightarrow> bool" where
  "is_slug_char c = (let n = (of_char c :: nat) in (48 \<le> n \<and> n \<le> 57) \<or> (97 \<le> n \<and> n \<le> 122))"

definition slugify :: "string \<Rightarrow> string" where
  "slugify s = replace_runs (\<lambda>c. \<not> is_slug_char c) (toLowerCase s)"

definition collapse_underscores :: "string \<Rightarrow> string" where
  "collapse_underscores s = replace_runs (\<lambda>c. c = CHR ''_'') s"

text \<open>\<open>s.replace(/^_|_$/g, '')\<close>: one underscore off the front, one off the end.\<close>

definition strip_underscores :: "string \<Rightarrow> string" where
  "strip_underscores s =
     (let s1 = (case s of [] \<Rightarrow> [] | c # cs \<Rightarrow> if c = CHR ''_'' then cs else s)
      in if s1 \<noteq> [] \<and> last s1 = CHR ''_'' then butlast s1 else s1)"

definition trim :: "string \<Rightarrow> string" where
  "trim s = rev (dropWhile is_space (rev (dropWhile is_space s)))"

text \<open>\<open>w.charAt(0).toUpperCase() + w.slice(1)\<close>, for first letters whose upper case is one
  code unit of the model.\<close>

definition capitalize :: "string \<Rightarrow> string" where
  "capitalize w = (case w of [] \<Rightarrow> [] | c # cs \<Rightarrow> upper_char c # cs)"

definition sub_branch_of :: "string \<Rightarrow> string \<Rightarrow> string \<Rightarrow> nat \<Rightarrow> sub_branch" where
  "sub_branch_of domainTitle shown s idx =
     \<lparr>sb_id = collapse_underscores (slugify domainTitle @ ''_sub_'' @ nat_digits (idx + 1)),
      sb_title = shown,
      sb_description = ''Sub-domain of '' @ domainTitle @ '': '' @ s\<rparr>"

definition generateSubBranches :: "string \<Rightarrow> int \<Rightarrow> string ai_response \<Rightarrow> sub_branch list" where
  "generateSubBranches domainTitle knowledgeLevel resp =
     (let fromService =
            (case resp of
               Answer (JsonArray parsed) \<Rightarrow>
                 if parsed \<noteq> [] then
                   Some (map (\<lambda>(idx, s). sub_branch_of domainTitle s s idx) (enumerate 0 (take 3 parsed)))
                 else None
             | _ \<Rightarrow> None)
      in case fromService of
           Some subs \<Rightarrow> subs
         | None \<Rightarrow>
             (let words = filter (\<lambda>w. length w > 3) (split_runs is_space domainTitle) in
              if length words \<ge> 2 then
                map (\<lambda>(idx, w). sub_branch_of domainTitle (capitalize w) w idx)
                  (enumerate 0 [words ! 0, words ! 1])
              else []))"

text \<open>The loop that fills the sub-branches, one call of the service per branch.\<close>

fun enrich_loop ::
  "(nat \<Rightarrow> string ai_response) \<Rightarrow> nat \<Rightarrow> int \<Rightarrow> strategic_branch list \<Rightarrow> strategic_branch list" where
  "enrich_loop llm k knowledgeLevel [] = []"
| "enrich_loop llm k knowledgeLevel (b # bs) =
     b\<lparr>subBranches := generateSubBranches (b_title b) knowledgeLevel (llm k)\<rparr>
       # enrich_loop llm (Suc k) knowledgeLevel bs"

definition focus_branch :: "int \<Rightarrow> string \<Rightarrow> strategic_branch" where
  "focus_branch knowledgeLevel raw =
     (let area = trim raw in
      \<lparr>b_id = strip_underscores (collapse_underscores (''focus_'' @ slugify area)),
       b_title = capitalize area,
       b_priority = ''high'',
       b_completed = False,
       b_description = ''Roadmap for developing expertise in '' @ area,
       expected_duration = estimateDuration knowledgeLevel,
       subBranches = []\<rparr>)"

definition domain_branch :: "int \<Rightarrow> nat \<times> string \<Rightarrow> strategic_branch" where
  "domain_branch knowledgeLevel x =
     (case x of (idx, d) \<Rightarrow>
      \<lparr>b_id = ''domain_'' @ nat_digits (idx + 1),
       b_title = d,
       b_priority = ''high'',
       b_completed = False,
       b_description = ''Roadmap for '' @ d,
       expected_duration = estimateDuration knowledgeLevel,
       subBranches = []\<rparr>)"

definition generateStrategicBranches ::
  "(nat \<Rightarrow> string ai_response) \<Rightarrow> string list \<Rightarrow> int \<Rightarrow> strategic_branch list" where
  "generateStrategicBranches llm focusAreas knowledgeLevel =
     (if focusAreas \<noteq> [] then
        enrich_loop llm 0 knowledgeLevel (map (focus_branch knowledgeLevel) focusAreas)
      else
        (let aiResp = llm 0;
             domains = (case aiResp of
                          Answer Unparseable \<Rightarrow> JsonArray []
                        | Answer p \<Rightarrow> p
                        | _ \<Rightarrow> JsonArray []);
             domains' = (case domains of
                           JsonArray ds \<Rightarrow> if ds = [] then [''General''] else ds
                         | _ \<Rightarrow> [''General''])
         in enrich_loop llm 1 knowledgeLevel
              (map (domain_branch knowledgeLevel) (enumerate 0 domains'))))"

definition generateFallbackTasks :: "strategic_branch \<Rightarrow> int \<Rightarrow> ai_task list" where
  "generateFallbackTasks b knowledgeLevel = []"

text \<open>\<open>t.difficulty || d\<close>\<close>

definition difficulty_or :: "int \<Rightarrow> ai_task \<Rightarrow> int" where
  "difficulty_or d t = (case t_difficulty t of None \<Rightarrow> d | Some x \<Rightarrow> if x = 0 then d else x)"

definition cap_duration :: "int \<Rightarrow> js_duration \<Rightarrow> js_duration" where
  "cap_duration m d = (case d of DurationNumber n \<Rightarrow> DurationNumber (js_min m n) | _ \<Rightarrow> d)"

text \<open>The clamping that follows the filter, one branch per band of the knowledge level.\<close>

definition clamp_task :: "int \<Rightarrow> ai_task \<Rightarrow> ai_task" where
  "clamp_task knowledgeLevel t =
     (if knowledgeLevel \<le> 2 then
        t\<lparr>t_difficulty := Some 1, t_duration := cap_duration 25 (t_duration t)\<rparr>
      else if knowledgeLevel \<le> 4 then
        t\<lparr>t_difficulty := Some (min 2 (max 1 (difficulty_or 1 t))),
          t_duration := cap_duration 45 (t_duration t)\<rparr>
      else if knowledgeLevel \<le> 6 then
        t\<lparr>t_difficulty := Some (min 3 (max 1 (difficulty_or 2 t))),
          t_duration := cap_duration 60 (t_duration t)\<rparr>
      else
        t\<lparr>t_difficulty := Some (min 5 (max 1 (difficulty_or 3 t)))\<rparr>)"

definition node_of_task :: "strategic_branch \<Rightarrow> nat \<Rightarrow> nat \<times> ai_task \<Rightarrow> node" where
  "node_of_task b startNodeId x =
     (case x of (i, t) \<Rightarrow>
      \<lparr>id_node = ''node_'' @ nat_digits (startNodeId + i),
       title = t_title t,
       description = t_description t,
       branch = Some (b_id b),
       difficulty = Some (difficulty_or 1 t),
       duration = Some (case t_duration t of
                          DurationNumber n \<Rightarrow> number_text n @ '' minutes''
                        | DurationText s \<Rightarrow> if s = [] then ''30 minutes'' else s
                        | DurationMissing \<Rightarrow> ''30 minutes''),
       priority = Some (200 + difficulty_or 1 t * 10),
       prerequisites = Some (case t_prerequisites t of None \<Rightarrow> [] | Some ps \<Rightarrow> ps),
       completed = False,
       generated = False,
       opportunityType = (case t_opportunityType t of None \<Rightarrow> None
                          | Some s \<Rightarrow> if s = [] then None else Some s),
       learningOutcome = None\<rparr>)"

text \<open>The result is the list of nodes together with the requests that the call queued on
  \<open>pendingClaudeRequests\<close>.\<close>

definition generateBranchNodesAI ::
  "strategic_branch \<Rightarrow> int \<Rightarrow> string list \<Rightarrow> nat \<Rightarrow> ai_task ai_response
     \<Rightarrow> node list \<times> pending_request list" where
  "generateBranchNodesAI b knowledgeLevel completedTitles startNodeId aiResponse =
     (let (tasks, pending) =
            (case aiResponse of
               RequestForClaude \<Rightarrow>
                 ([], [\<lparr>pr_type = ''tasks'', pr_branchId = b_id b, pr_pathName = b_title b\<rparr>])
             | Answer (JsonArray ts) \<Rightarrow>
                 (if ts = [] then generateFallbackTasks b knowledgeLevel else ts, [])
             | _ \<Rightarrow> (generateFallbackTasks b knowledgeLevel, []));
          filtered = map (clamp_task knowledgeLevel)
                       (filter (\<lambda>t. t_title t \<notin> set completedTitles) tasks)
      in (map (node_of_task b startNodeId) (enumerate 0 filtered), pending))"

definition idealDifficulty :: "int \<Rightarrow> int" where
  "idealDifficulty knowledgeLevel =
     (if knowledgeLevel \<le> 2 then 1
      else if knowledgeLevel \<le> 4 then 2
      else if knowledgeLevel \<le> 6 then 3
      else min (knowledgeLevel - 2) 5)"

text \<open>The comparator of the sort. A difference with a missing number is not a number,
  which a sort reads as zero.\<close>

definition compare_nodes :: "int \<Rightarrow> node \<Rightarrow> node \<Rightarrow> int" where
  "compare_nodes knowledgeLevel a b =
     (if priority a \<noteq> priority b then
        (case (priority a, priority b) of (Some pa, Some pb) \<Rightarrow> pb - pa | _ \<Rightarrow> 0)
      else
        (case (difficulty a, difficulty b) of
           (Some da, Some db) \<Rightarrow>
             \<bar>da - idealDifficulty knowledgeLevel\<bar> - \<bar>db - idealDifficulty knowledgeLevel\<bar>
         | _ \<Rightarrow> 0))"

text \<open>\<open>Array.prototype.sort\<close> is stable: an insertion sort that keeps the order of
  elements that compare equal.\<close>

fun insert_by :: "('a \<Rightarrow> 'a \<Rightarrow> int) \<Rightarrow> 'a \<Rightarrow> 'a list \<Rightarrow> 'a list" where
  "insert_by cmp x [] = [x]"
| "insert_by cmp x (y # ys) = (if cmp x y \<le> 0 then x # y # ys else y # insert_by cmp x ys)"

definition sort_by :: "('a \<Rightarrow> 'a \<Rightarrow> int) \<Rightarrow> 'a list \<Rightarrow> 'a list" where
  "sort_by cmp xs = foldr (insert_by cmp) xs []"

definition sortNodesBySequence :: "node list \<Rightarrow> int \<Rightarrow> node list" where
  "sortNodesBySequence frontier knowledgeLevel = sort_by (compare_nodes knowledgeLevel) frontier"

text \<open>The loop over the branches: \<open>k\<close> counts the calls of the service, \<open>nodeId\<close> the
  nodes made so far.\<close>

fun branches_loop ::
  "(nat \<Rightarrow> ai_task ai_response) \<Rightarrow> nat \<Rightarrow> int \<Rightarrow> string list \<Rightarrow> nat \<Rightarrow> strategic_branch list
     \<Rightarrow> node list \<times> pending_request list" where
  "branches_loop llm k knowledgeLevel completedTitles nodeId [] = ([], [])"
| "branches_loop llm k knowledgeLevel completedTitles nodeId (b # bs) =
     (let (aiNodes, pending) = generateBranchNodesAI b knowledgeLevel completedTitles nodeId (llm k);
          (rest, pending') =
            branches_loop llm (Suc k) knowledgeLevel completedTitles (nodeId + length aiNodes) bs
      in (aiNodes @ rest, pending @ pending'))"

definition completed_titles :: "hta_data option \<Rightarrow> string list" where
  "completed_titles existingHTA =
     (case existingHTA of
        None \<Rightarrow> []
      | Some h \<Rightarrow> (case frontierNodes h of None \<Rightarrow> [] | Some ns \<Rightarrow> map title (filter completed ns)))"

definition generateSequencedFrontierNodes ::
  "(nat \<Rightarrow> ai_task ai_response) \<Rightarrow> strategic_branch list \<Rightarrow> int \<Rightarrow> hta_data option
     \<Rightarrow> node list \<times> pending_request list" where
  "generateSequencedFrontierNodes llm strategicBranches knowledgeLevel existingHTA =
     (let completedTitles = completed_titles existingHTA;
          (frontier, pending) = branches_loop llm 0 knowledgeLevel completedTitles 1 strategicBranches
      in (sortNodesBySequence frontier knowledgeLevel, pending))"

section \<open>Notions of the specification\<close>

text \<open>The entries of a node's list of prerequisites; a node without the list has none.\<close>

definition prereqs_of :: "node \<Rightarrow> string list" where
  "prereqs_of n = (case prerequisites n of None \<Rightarrow> [] | Some ps \<Rightarrow> ps)"

text \<open>A reference resolves in a document when a completed task of the document has it as
  its id or as its title.\<close>

definition resolves :: "hta_data \<Rightarrow> string \<Rightarrow> bool" where
  "resolves htaData p =
     (\<exists>m \<in> set (nodes_of htaData). completed m \<and> (id_node m = p \<or> title m = p))"

text \<open>The minutes that the selector reads from a node.\<close>

definition minutes_of :: "node \<Rightarrow> nat" where
  "minutes_of n = parseTimeToMinutes (duration_or_default n)"

text \<open>
  A text names a time when it contains a number followed by a unit: a non-empty run of
  decimal digits, then any white space, then one of the words minute, hour, min, hr in
  any mix of upper and lower case.
\<close>

definition unit_words :: "string list" where
  "unit_words = [''minute'', ''hour'', ''min'', ''hr'']"

definition names_time :: "string \<Rightarrow> bool" where
  "names_time s =
     (\<exists>pre ds ws u post.
        s = pre @ ds @ ws @ u @ post \<and> ds \<noteq> [] \<and> list_all is_digit ds \<and> list_all is_space ws \<and>
        (\<exists>w \<in> set unit_words. list_all2 ci_match w u))"

text \<open>The service yields usable domains when its answer reads as a non-empty array.\<close>

definition usable_domains :: "string ai_response \<Rightarrow> bool" where
  "usable_domains resp = (case resp of Answer (JsonArray ds) \<Rightarrow> ds \<noteq> [] | _ \<Rightarrow> False)"

section \<open>Example documents\<close>

definition plain_node :: "string \<Rightarrow> string \<Rightarrow> node" where
  "plain_node i t =
     \<lparr>id_node = i, title = t, description = None, branch = None, difficulty = None,
      duration = None, priority = None, prerequisites = None, completed = False,
      generated = False, opportunityType = None, learningOutcome = None\<rparr>"


text \<open>Tasks of 13 and of 12 minutes, and a task whose duration names no time.\<close>

definition doc_time :: hta_data where
  "doc_time = \<lparr>frontierNodes = Some
     [(plain_node ''t13'' ''Long'')\<lparr>duration := Some ''13 minutes''\<rparr>,
      (plain_node ''t12'' ''Short'')\<lparr>duration := Some ''12 minutes''\<rparr>,
      (plain_node ''tx'' ''Vague'')\<lparr>duration := Some ''a long while''\<rparr>]\<rparr>"

text \<open>The scenario of the scoring: the goal is about the guitar, task A is on the goal and
  task B is not.\<close>

definition scenario_context :: project_context where
  "scenario_context = \<lparr>pc_goal = Some ''Learn guitar'', pc_domain = Some ''music''\<rparr>"

definition scenario_taskA :: node where
  "scenario_taskA = (plain_node ''a'' ''Practice guitar chords'')
     \<lparr>description := Some ''Play three open chords'', difficulty := Some 3,
      duration := Some ''25 minutes'', priority := Some 200\<rparr>"

definition scenario_taskB :: node where
  "scenario_taskB = (plain_node ''b'' ''Stretch hands'')
     \<lparr>description := Some ''Warm up fingers'', difficulty := Some 1,
      duration := Some ''5 minutes'', priority := Some 200\<rparr>"

definition scenario_doc :: hta_data where
  "scenario_doc = \<lparr>frontierNodes = Some [scenario_taskA, scenario_taskB]\<rparr>"

text \<open>A project without a roadmap, and a project with three open tasks, one completion a
  second ago that left the learner at energy 4, and no feedback.\<close>

definition example_config :: config where
  "example_config = \<lparr>goal = Some ''Learn guitar'', specific_interests = Some [''blues'', ''jazz'',
     ''folk'', ''rock''], knowledge_level = Some 1\<rparr>"

definition store_empty :: project_store where
  "store_empty = \<lparr>st_config = Some example_config, st_hta = None, st_history = None,
     st_write_fails = False\<rparr>"

definition store_busy :: project_store where
  "store_busy = \<lparr>st_config = Some example_config,
     st_hta = Some \<lparr>frontierNodes = Some [plain_node ''n1'' ''One'', plain_node ''n2'' ''Two'',
                                         plain_node ''n3'' ''Three'']\<rparr>,
     st_history = Some \<lparr>completedTopics = Some [\<lparr>completedAt = Some 999000, energyAfter = Some 4\<rparr>]\<rparr>,
     st_write_fails = False\<rparr>"

text \<open>The same project when the only completion is nine days old.\<close>

definition store_idle :: project_store where
  "store_idle = store_busy\<lparr>st_history :=
     Some \<lparr>completedTopics = Some [\<lparr>completedAt = Some 0, energyAfter = Some 5\<rparr>]\<rparr>\<rparr>"

text \<open>A branch, a roadmap in which the task titled X is completed, and a service that
  proposes X again beside a new task Y.\<close>

definition example_branch :: strategic_branch where
  "example_branch = \<lparr>b_id = ''domain_1'', b_title = ''Chords'', b_priority = ''high'',
     b_completed = False, b_description = ''Roadmap for Chords'',
     expected_duration = ''0-3 months'', subBranches = []\<rparr>"

definition plain_task :: "string \<Rightarrow> ai_task" where
  "plain_task t = \<lparr>t_title = t, t_description = None, t_difficulty = None,
     t_duration = DurationMissing, t_prerequisites = None, t_opportunityType = None\<rparr>"

definition doc_done_x :: hta_data where
  "doc_done_x = \<lparr>frontierNodes = Some [(plain_node ''node_1'' ''X'')\<lparr>completed := True\<rparr>]\<rparr>"

definition llm_x_y :: "nat \<Rightarrow> ai_task ai_response" where
  "llm_x_y k = Answer (JsonArray [plain_task ''X'', plain_task ''Y''])"

text \<open>A service that proposes difficulty 5 and the number 120 as the duration, and a
  service that proposes difficulty 5 and no duration.\<close>

definition task_120 :: ai_task where
  "task_120 = (plain_task ''C'')\<lparr>t_difficulty := Some 5, t_duration := DurationNumber (Decimal 120 0)\<rparr>"

definition oracle_overlong :: "ai_task ai_response" where
  "oracle_overlong = Answer (JsonArray [task_120])"

definition oracle_no_duration :: "ai_task ai_response" where
  "oracle_no_duration = Answer (JsonArray [(plain_task ''B'')\<lparr>t_difficulty := Some 5\<rparr>])"

section \<open>Properties\<close>

subsection \<open>The lookup structures of the selector\<close>

lemma nodesByTitle_loop_dom:
  "nodesByTitle_loop ns m p \<noteq> None \<longleftrightarrow>
     m p \<noteq> None \<or> (\<exists>n \<in> set ns. completed n \<and> title n = p)"
  by (induction ns arbitrary: m) auto

lemma nodesByTitle_dom:
  "nodesByTitle ns p \<noteq> None \<longleftrightarrow> (\<exists>n \<in> set ns. completed n \<and> title n = p)"
  using nodesByTitle_loop_dom [of ns Map.empty p] by (simp add: nodesByTitle_def)

lemma completedNodeIds_iff:
  "p \<in> completedNodeIds ns \<longleftrightarrow> (\<exists>n \<in> set ns. completed n \<and> id_node n = p)"
  by (auto simp: completedNodeIds_def)

lemma prerequisitesMet_iff:
  "prerequisitesMet ids byTitle ps \<longleftrightarrow> (\<forall>p \<in> set ps. p \<in> ids \<or> byTitle p \<noteq> None)"
  by (induction ps) auto

lemma admit_loop_iff:
  "n \<in> set (admit_loop ids byTitle ta ns) \<longleftrightarrow>
     n \<in> set ns \<and> \<not> completed n \<and> prerequisitesMet ids byTitle (prereqs_of n) \<and> \<not> too_long ta n"
  by (induction ns) (auto simp: prereqs_of_def split: option.splits)

lemma admitted_iff:
  "n \<in> set (admitted h ta) \<longleftrightarrow>
     n \<in> set (nodes_of h) \<and> \<not> completed n \<and> (\<forall>p \<in> set (prereqs_of n). resolves h p) \<and>
     \<not> too_long ta n"
proof -
  have "prerequisitesMet (completedNodeIds (nodes_of h)) (nodesByTitle (nodes_of h)) ps
          \<longleftrightarrow> (\<forall>p \<in> set ps. resolves h p)" for ps
    unfolding prerequisitesMet_iff resolves_def nodesByTitle_dom completedNodeIds_iff by blast
  then show ?thesis by (simp add: admitted_def Let_def admit_loop_iff)
qed






subsection \<open>The pattern of \<open>parseTimeToMinutes\<close>\<close>

lemma starts_with_ci_split:
  "starts_with_ci p s \<Longrightarrow> \<exists>u post. s = u @ post \<and> list_all2 ci_match p u"
proof (induction p s rule: starts_with_ci.induct)
  case (1 s)
  then show ?case by simp
next
  case (2 p ps)
  then show ?case by simp
next
  case (3 p ps c cs)
  then obtain u post where "cs = u @ post" "list_all2 ci_match ps u" by auto
  with 3 have "c # cs = (c # u) @ post \<and> list_all2 ci_match (p # ps) (c # u)" by simp
  then show ?case by blast
qed

lemma starts_with_ci_append:
  "list_all2 ci_match p u \<Longrightarrow> starts_with_ci p (u @ post)"
  by (induction p u rule: list_all2_induct) auto

lemma match_unit_sound:
  "match_unit r = Some w \<Longrightarrow> w \<in> set unit_words \<and> starts_with_ci w r"
  by (auto simp: match_unit_def unit_words_def split: if_splits)

lemma match_unit_complete:
  "w \<in> set unit_words \<Longrightarrow> starts_with_ci w r \<Longrightarrow> match_unit r \<noteq> None"
  by (auto simp: match_unit_def unit_words_def)

lemma unit_head_letter:
  assumes "w \<in> set unit_words" "list_all2 ci_match w u"
  shows "\<exists>c cs. u = c # cs \<and> \<not> is_digit c \<and> \<not> is_space c"
proof -
  from assms(1) obtain p ps where w: "w = p # ps" and p: "p = CHR ''m'' \<or> p = CHR ''h''"
    by (auto simp: unit_words_def)
  with assms(2) obtain c cs where u: "u = c # cs" and m: "ci_match p c"
    by (auto simp: list_all2_Cons1)
  from m p have "\<not> is_digit c \<and> \<not> is_space c"
    by (auto simp: ci_match_def is_digit_def is_space_def Let_def)
  with u show ?thesis by blast
qed

lemma match_here_sound:
  assumes "match_here t = Some (ds, w)"
  shows "\<exists>ws u post. t = ds @ ws @ u @ post \<and> ds \<noteq> [] \<and> list_all is_digit ds \<and>
           list_all is_space ws \<and> w \<in> set unit_words \<and> list_all2 ci_match w u"
proof -
  let ?r = "dropWhile is_digit t"
  from assms have ds: "ds = takeWhile is_digit t" and ne: "ds \<noteq> []"
    and mu: "match_unit (dropWhile is_space ?r) = Some w"
    by (auto simp: match_here_def Let_def split: if_splits option.splits)
  from match_unit_sound [OF mu] have w: "w \<in> set unit_words"
    and sw: "starts_with_ci w (dropWhile is_space ?r)" by auto
  from starts_with_ci_split [OF sw] obtain u post
    where up: "dropWhile is_space ?r = u @ post" and m: "list_all2 ci_match w u" by blast
  have "t = ds @ ?r" by (simp add: ds)
  also have "?r = takeWhile is_space ?r @ dropWhile is_space ?r" by simp
  finally have "t = ds @ takeWhile is_space ?r @ u @ post" by (simp add: up)
  moreover have "list_all is_digit ds" unfolding ds list_all_iff by (auto dest: set_takeWhileD)
  moreover have "list_all is_space (takeWhile is_space ?r)"
    unfolding list_all_iff by (auto dest: set_takeWhileD)
  ultimately show ?thesis using ne w m by blast
qed

lemma match_here_complete:
  assumes "ds \<noteq> []" "list_all is_digit ds" "list_all is_space ws"
    and "w \<in> set unit_words" "list_all2 ci_match w u"
  shows "match_here (ds @ ws @ u @ post) \<noteq> None"
proof -
  from unit_head_letter [OF assms(4,5)] obtain c cs
    where u: "u = c # cs" and c: "\<not> is_digit c" "\<not> is_space c" by blast
  have nd: "ws @ u @ post = [] \<or> \<not> is_digit (hd (ws @ u @ post))"
  proof (cases ws)
    case Nil
    then show ?thesis using u c by simp
  next
    case (Cons x xs)
    with assms(3) have "is_space x" by simp
    then have "\<not> is_digit x" by (auto simp: is_space_def is_digit_def Let_def)
    then show ?thesis using Cons by simp
  qed
  from assms(2) have all: "\<forall>x \<in> set ds. is_digit x" by (simp add: list_all_iff)
  have tw: "takeWhile is_digit (ds @ ws @ u @ post) = ds"
    using all nd u by (simp add: takeWhile_append2 takeWhile_eq_Nil_iff)
  have dw: "dropWhile is_digit (ds @ ws @ u @ post) = ws @ u @ post"
    using all nd u by (simp add: dropWhile_append2 dropWhile_eq_self_iff)
  from assms(3) have alls: "\<forall>x \<in> set ws. is_space x" by (simp add: list_all_iff)
  have ds: "dropWhile is_space (ws @ u @ post) = u @ post"
    using alls u c by (simp add: dropWhile_append2)
  have "match_unit (u @ post) \<noteq> None"
    using match_unit_complete [OF assms(4) starts_with_ci_append [OF assms(5)]] .
  then show ?thesis using assms(1) by (auto simp: match_here_def tw dw ds)
qed

lemma regex_match_sound:
  "regex_match s = Some m \<Longrightarrow> \<exists>pre t. s = pre @ t \<and> match_here t = Some m"
proof (induction s)
  case Nil
  then show ?case by simp
next
  case (Cons c cs)
  show ?case
  proof (cases "match_here (c # cs)")
    case None
    with Cons.prems have "regex_match cs = Some m" by simp
    from Cons.IH [OF this] obtain pre t where "cs = pre @ t" "match_here t = Some m" by blast
    then have "c # cs = (c # pre) @ t \<and> match_here t = Some m" by simp
    then show ?thesis by blast
  next
    case (Some a)
    with Cons.prems have "c # cs = [] @ (c # cs) \<and> match_here (c # cs) = Some m" by simp
    then show ?thesis by blast
  qed
qed

lemma regex_match_complete:
  "match_here t \<noteq> None \<Longrightarrow> regex_match (pre @ t) \<noteq> None"
proof (induction pre)
  case Nil
  then show ?case by (cases t) (auto simp: match_here_def)
next
  case (Cons c cs)
  then show ?case by (auto split: option.splits)
qed

lemma regex_match_names_time: "regex_match s \<noteq> None \<longleftrightarrow> names_time s"
proof
  assume "regex_match s \<noteq> None"
  then obtain ds w where "regex_match s = Some (ds, w)" by auto
  from regex_match_sound [OF this] obtain pre t where s: "s = pre @ t"
    and mh: "match_here t = Some (ds, w)" by blast
  from match_here_sound [OF mh] s show "names_time s"
    unfolding names_time_def by blast
next
  assume "names_time s"
  then obtain pre ds ws u post w where s: "s = pre @ ds @ ws @ u @ post"
    and a: "ds \<noteq> []" "list_all is_digit ds" "list_all is_space ws"
           "w \<in> set unit_words" "list_all2 ci_match w u"
    unfolding names_time_def by blast
  from regex_match_complete [OF match_here_complete [OF a]] s
  show "regex_match s \<noteq> None" by simp
qed


lemma parse_default:
  assumes "\<not> names_time s"
  shows "parseTimeToMinutes s = 30"
proof -
  from assms have "regex_match s = None" using regex_match_names_time [of s] by blast
  then show ?thesis by (simp add: parseTimeToMinutes_def)
qed

lemma admit_loop_cong:
  "parseTimeToMinutes ta = parseTimeToMinutes tb \<Longrightarrow>
     admit_loop ids byTitle ta ns = admit_loop ids byTitle tb ns"
  by (induction ns) (simp_all add: too_long_def)

lemma select_cong:
  assumes "parseTimeToMinutes ta = parseTimeToMinutes tb"
  shows "admitted h ta = admitted h tb"
    and "selectOptimalTask h e ta c pc = selectOptimalTask h e tb c pc"
proof -
  show a: "admitted h ta = admitted h tb"
    by (simp add: admitted_def admit_loop_cong [OF assms])
  show "selectOptimalTask h e ta c pc = selectOptimalTask h e tb c pc"
    unfolding selectOptimalTask_def a assms ..
qed

lemma parse_30_minutes: "parseTimeToMinutes ''30 minutes'' = 30"
  by code_simp

lemma minutes_of_vague:
  assumes "duration n = None \<or> (\<exists>d. duration n = Some d \<and> \<not> names_time d)"
  shows "minutes_of n = 30"
proof (cases "duration n")
  case None
  then show ?thesis by (simp add: minutes_of_def duration_or_default_def parse_30_minutes)
next
  case (Some d)
  with assms have "\<not> names_time d" by auto
  then have "parseTimeToMinutes d = 30" by (rule parse_default)
  with Some show ?thesis by (simp add: minutes_of_def duration_or_default_def parse_30_minutes)
qed

text \<open>
  C9. \<open>parseTimeToMinutes\<close> gives 30 for every text that names no time, among them the
  empty text, "soon" and "half an hour". So a \<open>timeAvailable\<close> that names no time selects
  as "30 minutes" does, and a node whose duration is missing or names no time counts as 30
  minutes in the cutoff of the admission and in the score.
\<close>

theorem C9_unparseable_time_is_30:
  "(\<not> names_time s \<longrightarrow> parseTimeToMinutes s = 30)
   \<and> parseTimeToMinutes [] = 30
   \<and> parseTimeToMinutes ''soon'' = 30
   \<and> parseTimeToMinutes ''half an hour'' = 30
   \<and> (\<not> names_time ta \<longrightarrow>
        admitted h ta = admitted h ''30 minutes'' \<and>
        selectOptimalTask h e ta c pc = selectOptimalTask h e ''30 minutes'' c pc)
   \<and> (duration n = None \<or> (\<exists>d. duration n = Some d \<and> \<not> names_time d) \<longrightarrow>
        minutes_of n = 30 \<and>
        (too_long tb n \<longleftrightarrow> real 30 > real (parseTimeToMinutes tb) * 1.2) \<and>
        calculateTaskScore n e t c pc =
          calculateTaskScore (n\<lparr>duration := Some ''30 minutes''\<rparr>) e t c pc)"
proof (intro conjI impI)
  show "parseTimeToMinutes [] = 30" by code_simp
  show "parseTimeToMinutes ''soon'' = 30" by code_simp
  show "parseTimeToMinutes ''half an hour'' = 30" by code_simp
next
  assume "\<not> names_time s"
  then show "parseTimeToMinutes s = 30" by (rule parse_default)
next
  assume "\<not> names_time ta"
  then have eq: "parseTimeToMinutes ta = parseTimeToMinutes ''30 minutes''"
    by (simp add: parse_default parse_30_minutes)
  show "admitted h ta = admitted h ''30 minutes''" by (rule select_cong(1) [OF eq])
  show "selectOptimalTask h e ta c pc = selectOptimalTask h e ''30 minutes'' c pc"
    by (rule select_cong(2) [OF eq])
next
  assume a: "duration n = None \<or> (\<exists>d. duration n = Some d \<and> \<not> names_time d)"
  show m: "minutes_of n = 30" by (rule minutes_of_vague [OF a])
  from m show "too_long tb n \<longleftrightarrow> real 30 > real (parseTimeToMinutes tb) * 1.2"
    by (simp add: too_long_def minutes_of_def)
  have "parseTimeToMinutes (duration_or_default n)
          = parseTimeToMinutes (duration_or_default (n\<lparr>duration := Some ''30 minutes''\<rparr>))"
    using m by (simp add: minutes_of_def duration_or_default_def parse_30_minutes)
  then show "calculateTaskScore n e t c pc =
          calculateTaskScore (n\<lparr>duration := Some ''30 minutes''\<rparr>) e t c pc"
    by (simp add: calculateTaskScore_def isDomainRelevant_def isContextRelevant_def task_text_def)
qed

text \<open>On "whenever" and on a task that lasts "a long while".\<close>

theorem C9_unparseable_time_is_30_witness:
  "parseTimeToMinutes ''whenever'' = 30
   \<and> admitted doc_time ''whenever'' = admitted doc_time ''30 minutes''
   \<and> minutes_of ((plain_node ''tx'' ''Vague'')\<lparr>duration := Some ''a long while''\<rparr>) = 30
   \<and> \<not> too_long ''25 minutes'' ((plain_node ''tx'' ''Vague'')\<lparr>duration := Some ''a long while''\<rparr>)
   \<and> too_long ''24 minutes'' ((plain_node ''tx'' ''Vague'')\<lparr>duration := Some ''a long while''\<rparr>)"
proof -
  let ?n = "(plain_node ''tx'' ''Vague'')\<lparr>duration := Some ''a long while''\<rparr>"
  have "regex_match ''whenever'' = None" by code_simp
  then have h1: "\<not> names_time ''whenever''"
    using regex_match_names_time [of "''whenever''"] by simp
  have "regex_match ''a long while'' = None" by code_simp
  then have "\<not> names_time ''a long while''"
    using regex_match_names_time [of "''a long while''"] by simp
  then have h2: "duration ?n = None \<or> (\<exists>d. duration ?n = Some d \<and> \<not> names_time d)"
    by (simp add: plain_node_def)
  have p25: "parseTimeToMinutes ''25 minutes'' = 25" by code_simp
  have p24: "parseTimeToMinutes ''24 minutes'' = 24" by code_simp
  from C9_unparseable_time_is_30 [of "''whenever''" "''whenever''" doc_time 3 "[]"
         "\<lparr>pc_goal = None, pc_domain = None\<rparr>" ?n "''25 minutes''" 30] h1 h2
  have a: "parseTimeToMinutes ''whenever'' = 30"
    and b: "admitted doc_time ''whenever'' = admitted doc_time ''30 minutes''"
    and c: "minutes_of ?n = 30"
    and d: "too_long ''25 minutes'' ?n \<longleftrightarrow> real 30 > real (parseTimeToMinutes ''25 minutes'') * 1.2"
    by blast+
  from C9_unparseable_time_is_30 [of "''whenever''" "''whenever''" doc_time 3 "[]"
         "\<lparr>pc_goal = None, pc_domain = None\<rparr>" ?n "''24 minutes''" 30] h2
  have e: "too_long ''24 minutes'' ?n \<longleftrightarrow> real 30 > real (parseTimeToMinutes ''24 minutes'') * 1.2"
    by blast
  from a b c d e show ?thesis by (simp add: p25 p24)
qed

subsection \<open>The cutoff of the admission\<close>

lemma parse_10: "parseTimeToMinutes ''10 minutes'' = 10" by code_simp
lemma parse_12: "parseTimeToMinutes ''12 minutes'' = 12" by code_simp
lemma parse_13: "parseTimeToMinutes ''13 minutes'' = 13" by code_simp

text \<open>
  C2. A candidate of \<open>selectOptimalTask\<close> has a parsed duration of at most 1.2 times the
  parsed \<open>timeAvailable\<close>. With "10 minutes" available a task of "13 minutes" is never a
  candidate, and a task of "12 minutes" that passes the other two checks is one.
\<close>

theorem C2_time_cutoff:
  "(n \<in> set (admitted h ta) \<longrightarrow> real (minutes_of n) \<le> 1.2 * real (parseTimeToMinutes ta))
   \<and> parseTimeToMinutes ''10 minutes'' = 10
   \<and> (duration n13 = Some ''13 minutes'' \<longrightarrow>
        minutes_of n13 = 13 \<and> n13 \<notin> set (admitted h ''10 minutes''))
   \<and> (duration n12 = Some ''12 minutes'' \<and> n12 \<in> set (nodes_of h) \<and> \<not> completed n12 \<and>
        (\<forall>p \<in> set (prereqs_of n12). resolves h p) \<longrightarrow>
        minutes_of n12 = 12 \<and> n12 \<in> set (admitted h ''10 minutes''))"
proof (intro conjI impI)
  assume "n \<in> set (admitted h ta)"
  then have "\<not> too_long ta n" by (simp add: admitted_iff)
  then show "real (minutes_of n) \<le> 1.2 * real (parseTimeToMinutes ta)"
    by (simp add: too_long_def minutes_of_def Let_def mult.commute)
next
  show "parseTimeToMinutes ''10 minutes'' = 10" by (rule parse_10)
next
  assume d: "duration n13 = Some ''13 minutes''"
  then show m: "minutes_of n13 = 13"
    by (simp add: minutes_of_def duration_or_default_def parse_13)
  then have "too_long ''10 minutes'' n13"
    by (simp add: too_long_def minutes_of_def parse_10)
  then show "n13 \<notin> set (admitted h ''10 minutes'')" by (simp add: admitted_iff)
next
  assume a: "duration n12 = Some ''12 minutes'' \<and> n12 \<in> set (nodes_of h) \<and> \<not> completed n12 \<and>
        (\<forall>p \<in> set (prereqs_of n12). resolves h p)"
  then show m: "minutes_of n12 = 12"
    by (simp add: minutes_of_def duration_or_default_def parse_12)
  then have "\<not> too_long ''10 minutes'' n12"
    by (simp add: too_long_def minutes_of_def parse_10)
  with a show "n12 \<in> set (admitted h ''10 minutes'')" by (simp add: admitted_iff)
qed

text \<open>On the example document: of the tasks of 13 and 12 minutes only the second is admitted
  for a slot of 10 minutes.\<close>

theorem C2_time_cutoff_witness:
  "admitted doc_time ''10 minutes'' = [(plain_node ''t12'' ''Short'')\<lparr>duration := Some ''12 minutes''\<rparr>]
   \<and> real (minutes_of ((plain_node ''t12'' ''Short'')\<lparr>duration := Some ''12 minutes''\<rparr>))
        \<le> 1.2 * real (parseTimeToMinutes ''10 minutes'')
   \<and> (plain_node ''t13'' ''Long'')\<lparr>duration := Some ''13 minutes''\<rparr> \<notin> set (admitted doc_time ''10 minutes'')"
proof -
  let ?n12 = "(plain_node ''t12'' ''Short'')\<lparr>duration := Some ''12 minutes''\<rparr>"
  let ?n13 = "(plain_node ''t13'' ''Long'')\<lparr>duration := Some ''13 minutes''\<rparr>"
  have adm: "admitted doc_time ''10 minutes'' = [?n12]" by code_simp
  have h12: "duration ?n12 = Some ''12 minutes'' \<and> ?n12 \<in> set (nodes_of doc_time) \<and> \<not> completed ?n12 \<and>
        (\<forall>p \<in> set (prereqs_of ?n12). resolves doc_time p)"
    by (simp add: plain_node_def doc_time_def nodes_of_def prereqs_of_def)
  have h13: "duration ?n13 = Some ''13 minutes''" by (simp add: plain_node_def)
  from C2_time_cutoff [of ?n12 doc_time "''10 minutes''" ?n13 ?n12] adm h12 h13
  show ?thesis by simp
qed

subsection \<open>The score\<close>

lemma best_loop_two:
  "best_loop e t c p None [x, y] =
     (if calculateTaskScore y e t c p > calculateTaskScore x e t c p
      then Some (y, calculateTaskScore y e t c p) else Some (x, calculateTaskScore x e t c p))"
  by (simp add: Let_def)

lemma parse_25: "parseTimeToMinutes ''25 minutes'' = 25" by code_simp
lemma parse_5: "parseTimeToMinutes ''5 minutes'' = 5" by code_simp

lemma score_plain:
  assumes "priority a = Some p" "p \<noteq> 0" "difficulty a = Some d" "d \<noteq> 0"
    and "\<not> (c \<noteq> [] \<and> isContextRelevant a c)"
    and "opportunityType a \<noteq> Some ''breakthrough_amplification''" "\<not> generated a"
  shows "calculateTaskScore a e t c pc =
           p + 20 * (5 - \<bar>e - d\<bar>) + time_fit t (minutes_of a)
             + (if isDomainRelevant a pc then 100 else 0)"
  using assms by (auto simp: calculateTaskScore_def minutes_of_def Let_def)

text \<open>
  C4, as amended. With \<open>timeAvailable\<close> "30 minutes" and exactly the two candidates A
  (difficulty 3, 25 minutes, priority 200, on the goal) and B (difficulty 1, 5 minutes,
  priority 200, not on the goal), neither matching the context, tagged as a breakthrough
  or generated, the scores are 200 + 20 * (5 - |e - 3|) + 50 + 100 and
  200 + 20 * (5 - |e - 1|) + 50 + 0 at energy level e; at energy level 3 they are 450 and
  310, and the selector returns A with 450.
\<close>

theorem C4_scenario_scores:
  assumes "difficulty a = Some 3" "duration a = Some ''25 minutes''" "priority a = Some 200"
      "isDomainRelevant a pc"
    and "difficulty b = Some 1" "duration b = Some ''5 minutes''" "priority b = Some 200"
      "\<not> isDomainRelevant b pc"
    and "\<not> (c \<noteq> [] \<and> isContextRelevant a c)" "\<not> (c \<noteq> [] \<and> isContextRelevant b c)"
    and "opportunityType a \<noteq> Some ''breakthrough_amplification''"
      "opportunityType b \<noteq> Some ''breakthrough_amplification''"
    and "\<not> generated a" "\<not> generated b"
    and "admitted h ''30 minutes'' = [a, b] \<or> admitted h ''30 minutes'' = [b, a]"
  shows "calculateTaskScore a e (parseTimeToMinutes ''30 minutes'') c pc
           = 200 + 20 * (5 - \<bar>e - 3\<bar>) + 50 + 100
       \<and> calculateTaskScore b e (parseTimeToMinutes ''30 minutes'') c pc
           = 200 + 20 * (5 - \<bar>e - 1\<bar>) + 50 + 0
       \<and> calculateTaskScore a 3 (parseTimeToMinutes ''30 minutes'') c pc = 450
       \<and> calculateTaskScore b 3 (parseTimeToMinutes ''30 minutes'') c pc = 310
       \<and> selectOptimalTask h 3 ''30 minutes'' c pc = Some (a, 450)"
proof -
  have ma: "minutes_of a = 25" using assms(2)
    by (simp add: minutes_of_def duration_or_default_def parse_25)
  have mb: "minutes_of b = 5" using assms(6)
    by (simp add: minutes_of_def duration_or_default_def parse_5)
  have sa: "calculateTaskScore a e' (parseTimeToMinutes ''30 minutes'') c pc
             = 200 + 20 * (5 - \<bar>e' - 3\<bar>) + 50 + 100" for e'
    using score_plain [of a 200 3 c e' "parseTimeToMinutes ''30 minutes''" pc] assms
    by (simp add: ma parse_30_minutes time_fit_def)
  have sb: "calculateTaskScore b e' (parseTimeToMinutes ''30 minutes'') c pc
             = 200 + 20 * (5 - \<bar>e' - 1\<bar>) + 50 + 0" for e'
    using score_plain [of b 200 1 c e' "parseTimeToMinutes ''30 minutes''" pc] assms
    by (simp add: mb parse_30_minutes time_fit_def)
  have a3: "calculateTaskScore a 3 (parseTimeToMinutes ''30 minutes'') c pc = 450"
    by (simp add: sa)
  have b3: "calculateTaskScore b 3 (parseTimeToMinutes ''30 minutes'') c pc = 310"
    by (simp add: sb)
  have "selectOptimalTask h 3 ''30 minutes'' c pc = Some (a, 450)"
    using assms(15) by (auto simp: selectOptimalTask_def best_loop_two a3 b3 simp del: best_loop.simps)
  with sa sb a3 b3 show ?thesis by blast
qed

lemma scenario_facts:
  "isDomainRelevant scenario_taskA scenario_context"
  "\<not> isDomainRelevant scenario_taskB scenario_context"
  "admitted scenario_doc ''30 minutes'' = [scenario_taskA, scenario_taskB]"
  by code_simp+

text \<open>On the example scenario.\<close>

theorem C4_scenario_scores_witness:
  "calculateTaskScore scenario_taskA 3 (parseTimeToMinutes ''30 minutes'') [] scenario_context = 450
   \<and> calculateTaskScore scenario_taskB 3 (parseTimeToMinutes ''30 minutes'') [] scenario_context = 310
   \<and> selectOptimalTask scenario_doc 3 ''30 minutes'' [] scenario_context = Some (scenario_taskA, 450)"
proof -
  have attrs:
    "difficulty scenario_taskA = Some 3" "duration scenario_taskA = Some ''25 minutes''"
    "priority scenario_taskA = Some 200"
    "difficulty scenario_taskB = Some 1" "duration scenario_taskB = Some ''5 minutes''"
    "priority scenario_taskB = Some 200"
    "opportunityType scenario_taskA \<noteq> Some ''breakthrough_amplification''"
    "opportunityType scenario_taskB \<noteq> Some ''breakthrough_amplification''"
    "\<not> generated scenario_taskA" "\<not> generated scenario_taskB"
    by (simp_all add: scenario_taskA_def scenario_taskB_def plain_node_def)
  from C4_scenario_scores [of scenario_taskA scenario_context scenario_taskB "[]" scenario_doc 3]
       attrs scenario_facts
  show ?thesis by simp
qed

text \<open>The score of task A in the scenario is not the 390 of the specification's sum: the
  energy term of a task whose difficulty equals the energy level is 100, not 40.\<close>

theorem C4_scenario_scores_counterexample:
  "difficulty scenario_taskA = Some 3 \<and> duration scenario_taskA = Some ''25 minutes''
   \<and> priority scenario_taskA = Some 200 \<and> isDomainRelevant scenario_taskA scenario_context
   \<and> admitted scenario_doc ''30 minutes'' = [scenario_taskA, scenario_taskB]
   \<and> calculateTaskScore scenario_taskA 3 (parseTimeToMinutes ''30 minutes'') [] scenario_context \<noteq> 390"
proof -
  have "calculateTaskScore scenario_taskA 3 (parseTimeToMinutes ''30 minutes'') [] scenario_context = 450"
    by code_simp
  then show ?thesis
    by (simp add: scenario_facts) (simp add: scenario_taskA_def plain_node_def)
qed

subsection \<open>Strategy evolution\<close>

lemma indicator_no_available:
  "''no_available_tasks'' \<in> set (detectStuckIndicators h lh now) \<longleftrightarrow> getAvailableTasksCount h = 0"
  by (simp add: detectStuckIndicators_def Let_def)

lemma indicator_low_engagement:
  "''low_engagement'' \<in> set (detectStuckIndicators h lh now)
     \<longleftrightarrow> avgEngagement (recentCompletions lh now) < 2.5"
  by (simp add: detectStuckIndicators_def Let_def)

lemma indicator_no_recent:
  "''no_recent_progress'' \<in> set (detectStuckIndicators h lh now)
     \<longleftrightarrow> recentCompletions lh now = []"
  by (simp add: detectStuckIndicators_def Let_def)

lemma diagnosis_table:
  "recommendedEvolution (analyzeCurrentStrategy lh0 hist0 now fb) =
     Some (if getAvailableTasksCount (hta_or_empty lh0) = 0 then ''generate_new_tasks''
           else if avgEngagement (recentCompletions (history_or_empty hist0) now) < 2.5
             then ''increase_variety_and_interest''
           else if sentiment (analyzeFeedback fb) = ''negative'' then ''address_user_concerns''
           else if getAvailableTasksCount (hta_or_empty lh0) < 3 then ''expand_task_frontier''
           else ''optimize_existing_sequence'')"
  by (simp add: analyzeCurrentStrategy_def determineEvolutionStrategy_def Let_def
        indicator_no_available indicator_low_engagement)

lemma evolve_result:
  "st_config st = Some cfg \<Longrightarrow>
     fst (evolveStrategy st now fb) =
       Inr \<lparr>strategy_analysis = analyzeCurrentStrategy (st_hta st) (st_history st) now fb,
            new_tasks = generateSmartNextTasks cfg (st_hta st)
                          (analyzeCurrentStrategy (st_hta st) (st_history st) now fb)\<rparr>"
  by (simp add: evolveStrategy_def Let_def)

lemma exploration_tasks:
  "generateExplorationTasks g k \<noteq> []"
  "t \<in> set (generateExplorationTasks g k) \<Longrightarrow> generated t \<and> (\<exists>p. priority t = Some p \<and> p > 200)"
  by (auto simp: generateExplorationTasks_def Let_def)

lemma exploration_length: "length (generateExplorationTasks g k) = 2"
  by (simp add: generateExplorationTasks_def Let_def)

lemma interest_tasks:
  "length (generateInterestBasedTasks cfg k) \<le> 3"
  "t \<in> set (generateInterestBasedTasks cfg k) \<Longrightarrow> generated t \<and> (\<exists>p. priority t = Some p \<and> p > 200)"
  by (auto simp: generateInterestBasedTasks_def interest_task_def Let_def)

lemma concern_tasks:
  "t \<in> set (generateConcernAddressingTasks f k) \<Longrightarrow> generated t \<and> (\<exists>p. priority t = Some p \<and> p > 200)"
  by (auto simp: generateConcernAddressingTasks_def)

lemma progressive_tasks:
  assumes "t \<in> set (generateProgressiveTasks h k)"
  shows "generated t \<and> (\<exists>p. priority t = Some p \<and> p > 200)"
proof (cases "filter completed (nodes_of h) = []")
  case True
  with assms have "t \<in> set (generateExplorationTasks (Some ''general learning'') k)"
    by (simp add: generateProgressiveTasks_def)
  then show ?thesis by (rule exploration_tasks(2))
next
  case False
  with assms show ?thesis by (simp add: generateProgressiveTasks_def Let_def)
qed

lemma smart_tasks:
  "length (generateSmartNextTasks cfg lh0 a) \<le> 5"
  "t \<in> set (generateSmartNextTasks cfg lh0 a) \<Longrightarrow> generated t \<and> (\<exists>p. priority t = Some p \<and> p > 200)"
proof -
  show "length (generateSmartNextTasks cfg lh0 a) \<le> 5"
    by (simp add: generateSmartNextTasks_def Let_def)
  let ?k = "length (nodes_of (hta_or_empty lh0)) + 3000"
  let ?s = "recommendedEvolution a"
  assume "t \<in> set (generateSmartNextTasks cfg lh0 a)"
  then have m: "t \<in> set
      (if ?s = Some ''generate_new_tasks'' then generateExplorationTasks (goal cfg) ?k
       else if ?s = Some ''increase_variety_and_interest'' then generateInterestBasedTasks cfg ?k
       else if ?s = Some ''address_user_concerns'' then generateConcernAddressingTasks (userFeedback a) ?k
       else if ?s = Some ''expand_task_frontier'' then generateProgressiveTasks (hta_or_empty lh0) ?k
       else generateBalancedTasks cfg (hta_or_empty lh0) ?k)"
    unfolding generateSmartNextTasks_def Let_def by (rule in_set_takeD)
  show "generated t \<and> (\<exists>p. priority t = Some p \<and> p > 200)"
  proof (cases "?s = Some ''generate_new_tasks''")
    case True
    with m show ?thesis using exploration_tasks(2) by simp
  next
    case n1: False
    show ?thesis
    proof (cases "?s = Some ''increase_variety_and_interest''")
      case True
      with m n1 show ?thesis using interest_tasks(2) by simp
    next
      case n2: False
      show ?thesis
      proof (cases "?s = Some ''address_user_concerns''")
        case True
        with m n1 n2 show ?thesis using concern_tasks by simp
      next
        case n3: False
        show ?thesis
        proof (cases "?s = Some ''expand_task_frontier''")
          case True
          with m n1 n2 n3 show ?thesis using progressive_tasks by simp
        next
          case False
          with m n1 n2 n3 show ?thesis by (simp add: generateBalancedTasks_def)
        qed
      qed
    qed
  qed
qed

lemma smart_tasks_new:
  "recommendedEvolution a = Some ''generate_new_tasks'' \<Longrightarrow>
     generateSmartNextTasks cfg lh0 a
       = generateExplorationTasks (goal cfg) (length (nodes_of (hta_or_empty lh0)) + 3000)"
  by (simp add: generateSmartNextTasks_def Let_def exploration_length)

lemma smart_tasks_optimize:
  "recommendedEvolution a = Some ''optimize_existing_sequence'' \<Longrightarrow>
     generateSmartNextTasks cfg lh0 a = []"
  by (simp add: generateSmartNextTasks_def Let_def generateBalancedTasks_def)

lemma smart_tasks_interest:
  assumes "recommendedEvolution a = Some ''increase_variety_and_interest''"
  shows "generateSmartNextTasks cfg lh0 a
           = generateInterestBasedTasks cfg (length (nodes_of (hta_or_empty lh0)) + 3000)"
proof -
  have "length (generateInterestBasedTasks cfg (length (nodes_of (hta_or_empty lh0)) + 3000)) \<le> 5"
    using interest_tasks(1) [of cfg "length (nodes_of (hta_or_empty lh0)) + 3000"] by simp
  with assms show ?thesis by (simp add: generateSmartNextTasks_def Let_def)
qed

lemma avgEngagement_empty: "avgEngagement [] = 0"
  by (simp add: avgEngagement_def)

lemma nodes_of_update: "nodes_of (h\<lparr>frontierNodes := Some xs\<rparr>) = xs"
  by (simp add: nodes_of_def)

lemma evolve_store:
  assumes "st_config st = Some cfg"
    and "new = generateSmartNextTasks cfg (st_hta st)
                 (analyzeCurrentStrategy (st_hta st) (st_history st) now fb)"
  shows "snd (evolveStrategy st now fb) =
           (if new \<noteq> [] \<and> \<not> st_write_fails st
            then st\<lparr>st_hta := Some ((hta_or_empty (st_hta st))
                       \<lparr>frontierNodes := Some (nodes_of (hta_or_empty (st_hta st)) @ new)\<rparr>)\<rparr>
            else st)"
  unfolding evolveStrategy_def assms(1) option.case Let_def assms(2) [symmetric]
  by (cases new) simp_all

lemma store_facts:
  "st_config store_empty = Some example_config"
  "st_config store_busy = Some example_config"
  "st_config store_idle = Some example_config"
  "\<not> st_write_fails store_idle"
  by (simp_all add: store_empty_def store_busy_def store_idle_def)

lemma count_empty: "getAvailableTasksCount (hta_or_empty (st_hta store_empty)) = 0" by code_simp
lemma count_busy: "getAvailableTasksCount (hta_or_empty (st_hta store_busy)) = 3" by code_simp
lemma count_idle: "getAvailableTasksCount (hta_or_empty (st_hta store_idle)) = 3" by code_simp
lemma engaged_busy:
  "\<not> avgEngagement (recentCompletions (history_or_empty (st_history store_busy)) 1000000) < 2.5"
  by code_simp
lemma recent_idle: "recentCompletions (history_or_empty (st_history store_idle)) 777600000 = []"
  by code_simp
lemma start_idle: "length (nodes_of (hta_or_empty (st_hta store_idle))) + 3000 = 3003" by code_simp
lemma interest_generated:
  "map generated (generateInterestBasedTasks example_config 3003) = [True, True, True]"
  by code_simp
lemma interest_priority:
  "map priority (generateInterestBasedTasks example_config 3003) = [Some 300, Some 300, Some 300]"
  by code_simp
lemma exploration_generated: "map generated (generateExplorationTasks gl k) = [True, True]"
  by (simp add: generateExplorationTasks_def Let_def)
lemma neutral_empty: "sentiment (analyzeFeedback []) = ''neutral''"
  by (simp add: analyzeFeedback_def)

text \<open>
  C5. When the configuration of the project is found, \<open>evolveStrategy\<close> gives a diagnosis
  that follows the table in this order, the first match winning: no admissible task gives
  \<open>generate_new_tasks\<close>; else a mean energy below 2.5 over the recent completions gives
  \<open>increase_variety_and_interest\<close>; else a negative feedback gives
  \<open>address_user_concerns\<close>; else fewer than three admissible tasks give
  \<open>expand_task_frontier\<close>; else \<open>optimize_existing_sequence\<close>, with no new task. With no
  admissible task the diagnosis is \<open>generate_new_tasks\<close> and at least one new task is
  returned, each with \<open>generated\<close> set.
\<close>

theorem C5_decision_table:
  assumes "st_config st = Some cfg"
  shows "\<exists>r. fst (evolveStrategy st now fb) = Inr r \<and>
     recommendedEvolution (strategy_analysis r) =
       Some (if getAvailableTasksCount (hta_or_empty (st_hta st)) = 0 then ''generate_new_tasks''
             else if avgEngagement (recentCompletions (history_or_empty (st_history st)) now) < 2.5
               then ''increase_variety_and_interest''
             else if sentiment (analyzeFeedback fb) = ''negative'' then ''address_user_concerns''
             else if getAvailableTasksCount (hta_or_empty (st_hta st)) < 3 then ''expand_task_frontier''
             else ''optimize_existing_sequence'') \<and>
     (recommendedEvolution (strategy_analysis r) = Some ''optimize_existing_sequence''
        \<longrightarrow> new_tasks r = []) \<and>
     (getAvailableTasksCount (hta_or_empty (st_hta st)) = 0 \<longrightarrow>
        recommendedEvolution (strategy_analysis r) = Some ''generate_new_tasks'' \<and>
        length (new_tasks r) \<ge> 1 \<and> (\<forall>t \<in> set (new_tasks r). generated t))"
proof -
  let ?a = "analyzeCurrentStrategy (st_hta st) (st_history st) now fb"
  let ?r = "\<lparr>strategy_analysis = ?a, new_tasks = generateSmartNextTasks cfg (st_hta st) ?a\<rparr>"
  have r: "fst (evolveStrategy st now fb) = Inr ?r" by (rule evolve_result [OF assms])
  have tab: "recommendedEvolution (strategy_analysis ?r) =
       Some (if getAvailableTasksCount (hta_or_empty (st_hta st)) = 0 then ''generate_new_tasks''
             else if avgEngagement (recentCompletions (history_or_empty (st_history st)) now) < 2.5
               then ''increase_variety_and_interest''
             else if sentiment (analyzeFeedback fb) = ''negative'' then ''address_user_concerns''
             else if getAvailableTasksCount (hta_or_empty (st_hta st)) < 3 then ''expand_task_frontier''
             else ''optimize_existing_sequence'')"
    by (simp add: diagnosis_table)
  have opt: "recommendedEvolution (strategy_analysis ?r) = Some ''optimize_existing_sequence''
        \<longrightarrow> new_tasks ?r = []"
    by (simp add: smart_tasks_optimize)
  have new: "getAvailableTasksCount (hta_or_empty (st_hta st)) = 0 \<longrightarrow>
        recommendedEvolution (strategy_analysis ?r) = Some ''generate_new_tasks'' \<and>
        length (new_tasks ?r) \<ge> 1 \<and> (\<forall>t \<in> set (new_tasks ?r). generated t)"
  proof
    assume z: "getAvailableTasksCount (hta_or_empty (st_hta st)) = 0"
    then have g: "recommendedEvolution ?a = Some ''generate_new_tasks''"
      by (simp add: diagnosis_table)
    have "generateSmartNextTasks cfg (st_hta st) ?a \<noteq> []"
      unfolding smart_tasks_new [OF g] by (rule exploration_tasks(1))
    then have "length (generateSmartNextTasks cfg (st_hta st) ?a) \<ge> 1"
      by (cases "generateSmartNextTasks cfg (st_hta st) ?a") simp_all
    with g smart_tasks(2) [of _ cfg "st_hta st" ?a]
    show "recommendedEvolution (strategy_analysis ?r) = Some ''generate_new_tasks'' \<and>
        length (new_tasks ?r) \<ge> 1 \<and> (\<forall>t \<in> set (new_tasks ?r). generated t)"
      by simp
  qed
  show ?thesis
  proof (intro exI [of _ ?r] conjI)
    show "fst (evolveStrategy st now fb) = Inr ?r" by (rule r)
    show "recommendedEvolution (strategy_analysis ?r) =
       Some (if getAvailableTasksCount (hta_or_empty (st_hta st)) = 0 then ''generate_new_tasks''
             else if avgEngagement (recentCompletions (history_or_empty (st_history st)) now) < 2.5
               then ''increase_variety_and_interest''
             else if sentiment (analyzeFeedback fb) = ''negative'' then ''address_user_concerns''
             else if getAvailableTasksCount (hta_or_empty (st_hta st)) < 3 then ''expand_task_frontier''
             else ''optimize_existing_sequence'')" by (rule tab)
    show "recommendedEvolution (strategy_analysis ?r) = Some ''optimize_existing_sequence''
        \<longrightarrow> new_tasks ?r = []" by (rule opt)
    show "getAvailableTasksCount (hta_or_empty (st_hta st)) = 0 \<longrightarrow>
        recommendedEvolution (strategy_analysis ?r) = Some ''generate_new_tasks'' \<and>
        length (new_tasks ?r) \<ge> 1 \<and> (\<forall>t \<in> set (new_tasks ?r). generated t)" by (rule new)
  qed
qed

text \<open>On a project without a roadmap, and on a project with three open tasks.\<close>

theorem C5_decision_table_witness:
  "(\<exists>r. fst (evolveStrategy store_empty 1000000 []) = Inr r \<and>
        recommendedEvolution (strategy_analysis r) = Some ''generate_new_tasks'' \<and>
        map generated (new_tasks r) = [True, True])
   \<and> (\<exists>r. fst (evolveStrategy store_busy 1000000 []) = Inr r \<and>
        recommendedEvolution (strategy_analysis r) = Some ''optimize_existing_sequence'' \<and>
        new_tasks r = [])"
proof (rule conjI)
  let ?a = "analyzeCurrentStrategy (st_hta store_empty) (st_history store_empty) 1000000 []"
  let ?r = "\<lparr>strategy_analysis = ?a,
             new_tasks = generateSmartNextTasks example_config (st_hta store_empty) ?a\<rparr>"
  have r: "fst (evolveStrategy store_empty 1000000 []) = Inr ?r"
    by (rule evolve_result [OF store_facts(1)])
  from C5_decision_table [OF store_facts(1), of 1000000 "[]"]
  obtain r' where r': "fst (evolveStrategy store_empty 1000000 []) = Inr r'"
    and z: "getAvailableTasksCount (hta_or_empty (st_hta store_empty)) = 0 \<longrightarrow>
        recommendedEvolution (strategy_analysis r') = Some ''generate_new_tasks'' \<and>
        length (new_tasks r') \<ge> 1 \<and> (\<forall>t \<in> set (new_tasks r'). generated t)"
    by (elim exE conjE)
  from r r' have eq: "r' = ?r" by simp
  have d: "recommendedEvolution (strategy_analysis r') = Some ''generate_new_tasks''"
    by (rule conjunct1 [OF mp [OF z count_empty]])
  from d eq have d': "recommendedEvolution ?a = Some ''generate_new_tasks''" by simp
  have g: "map generated (new_tasks ?r) = [True, True]"
    by (simp add: smart_tasks_new [OF d'] exploration_generated)
  show "\<exists>r. fst (evolveStrategy store_empty 1000000 []) = Inr r \<and>
        recommendedEvolution (strategy_analysis r) = Some ''generate_new_tasks'' \<and>
        map generated (new_tasks r) = [True, True]"
  proof (intro exI [of _ ?r] conjI)
    show "fst (evolveStrategy store_empty 1000000 []) = Inr ?r" by (rule r)
    show "recommendedEvolution (strategy_analysis ?r) = Some ''generate_new_tasks''"
      using d' by simp
    show "map generated (new_tasks ?r) = [True, True]" by (rule g)
  qed
next
  let ?a = "analyzeCurrentStrategy (st_hta store_busy) (st_history store_busy) 1000000 []"
  let ?r = "\<lparr>strategy_analysis = ?a,
             new_tasks = generateSmartNextTasks example_config (st_hta store_busy) ?a\<rparr>"
  have r: "fst (evolveStrategy store_busy 1000000 []) = Inr ?r"
    by (rule evolve_result [OF store_facts(2)])
  from C5_decision_table [OF store_facts(2), of 1000000 "[]"]
  obtain r' where r': "fst (evolveStrategy store_busy 1000000 []) = Inr r'"
    and tab: "recommendedEvolution (strategy_analysis r') =
       Some (if getAvailableTasksCount (hta_or_empty (st_hta store_busy)) = 0 then ''generate_new_tasks''
             else if avgEngagement (recentCompletions (history_or_empty (st_history store_busy)) 1000000) < 2.5
               then ''increase_variety_and_interest''
             else if sentiment (analyzeFeedback []) = ''negative'' then ''address_user_concerns''
             else if getAvailableTasksCount (hta_or_empty (st_hta store_busy)) < 3 then ''expand_task_frontier''
             else ''optimize_existing_sequence'')"
    and opt: "recommendedEvolution (strategy_analysis r') = Some ''optimize_existing_sequence''
        \<longrightarrow> new_tasks r' = []"
    by (elim exE conjE)
  from r r' have eq: "r' = ?r" by simp
  have e': "(avgEngagement (recentCompletions (history_or_empty (st_history store_busy)) 1000000) < 2.5)
              = False"
    using engaged_busy by simp
  have "recommendedEvolution (strategy_analysis r') =
       Some (if (3::nat) = 0 then ''generate_new_tasks''
             else if False then ''increase_variety_and_interest''
             else if ''neutral'' = ''negative'' then ''address_user_concerns''
             else if (3::nat) < 3 then ''expand_task_frontier''
             else ''optimize_existing_sequence'')"
    using tab by (simp only: count_busy e' neutral_empty)
  then have d: "recommendedEvolution (strategy_analysis r') = Some ''optimize_existing_sequence''"
    by simp
  with opt have n: "new_tasks r' = []" by simp
  show "\<exists>r. fst (evolveStrategy store_busy 1000000 []) = Inr r \<and>
        recommendedEvolution (strategy_analysis r) = Some ''optimize_existing_sequence'' \<and>
        new_tasks r = []"
  proof (intro exI [of _ r'] conjI)
    show "fst (evolveStrategy store_busy 1000000 []) = Inr r'" by (rule r')
    show "recommendedEvolution (strategy_analysis r') = Some ''optimize_existing_sequence''" by (rule d)
    show "new_tasks r' = []" by (rule n)
  qed
qed

text \<open>
  C7. A call of \<open>evolveStrategy\<close> returns at most five new tasks, each with \<open>generated\<close>
  set and a priority above 200, and the saved roadmap is the old one with exactly these
  tasks appended (with nothing appended when the save fails). A call that fails for want of
  a configuration leaves the store as it was.
\<close>

theorem C7_evolve_appends:
  "(case evolveStrategy st now fb of
      (Inl err, st') \<Rightarrow> st' = st
    | (Inr r, st') \<Rightarrow>
        length (new_tasks r) \<le> 5 \<and>
        (\<forall>t \<in> set (new_tasks r). generated t \<and> (\<exists>p. priority t = Some p \<and> p > 200)) \<and>
        nodes_of (hta_or_empty (st_hta st')) =
          nodes_of (hta_or_empty (st_hta st)) @ (if st_write_fails st then [] else new_tasks r))"
proof (cases "st_config st")
  case None
  then show ?thesis by (simp add: evolveStrategy_def)
next
  case (Some cfg)
  define a where "a = analyzeCurrentStrategy (st_hta st) (st_history st) now fb"
  define new where "new = generateSmartNextTasks cfg (st_hta st) a"
  obtain res st' where ev: "evolveStrategy st now fb = (res, st')"
    by (cases "evolveStrategy st now fb")
  from evolve_result [OF Some, of now fb] ev
  have res: "res = Inr \<lparr>strategy_analysis = a, new_tasks = new\<rparr>"
    by (simp add: a_def new_def)
  from evolve_store [OF Some, of new now fb] ev
  have st': "st' = (if new \<noteq> [] \<and> \<not> st_write_fails st
            then st\<lparr>st_hta := Some ((hta_or_empty (st_hta st))
                       \<lparr>frontierNodes := Some (nodes_of (hta_or_empty (st_hta st)) @ new)\<rparr>)\<rparr>
            else st)"
    by (simp add: a_def new_def)
  have len: "length new \<le> 5" unfolding new_def by (rule smart_tasks(1))
  have all: "\<forall>t \<in> set new. generated t \<and> (\<exists>p. priority t = Some p \<and> p > 200)"
    unfolding new_def using smart_tasks(2) by blast
  have doc: "nodes_of (hta_or_empty (st_hta st')) =
          nodes_of (hta_or_empty (st_hta st)) @ (if st_write_fails st then [] else new)"
  proof (cases "new \<noteq> [] \<and> \<not> st_write_fails st")
    case True
    with st' show ?thesis by (simp add: hta_or_empty_def nodes_of_update)
  next
    case False
    with st' have "st' = st" by simp
    with False show ?thesis by auto
  qed
  from len all doc show ?thesis unfolding ev res by simp
qed

text \<open>On the project whose last completion is nine days old: three tasks, one per
  interest, are appended.\<close>

theorem C7_evolve_appends_witness:
  "\<exists>r st'. evolveStrategy store_idle 777600000 ''great progress'' = (Inr r, st') \<and>
      length (new_tasks r) = 3 \<and>
      map generated (new_tasks r) = [True, True, True] \<and>
      map priority (new_tasks r) = [Some 300, Some 300, Some 300] \<and>
      nodes_of (hta_or_empty (st_hta st')) = nodes_of (hta_or_empty (st_hta store_idle)) @ new_tasks r"
proof -
  define a where "a = analyzeCurrentStrategy (st_hta store_idle) (st_history store_idle) 777600000 ''great progress''"
  define new where "new = generateSmartNextTasks example_config (st_hta store_idle) a"
  have d: "recommendedEvolution a = Some ''increase_variety_and_interest''"
    unfolding a_def by (simp add: diagnosis_table count_idle recent_idle avgEngagement_empty)
  have new_eq: "new = generateInterestBasedTasks example_config 3003"
    unfolding new_def smart_tasks_interest [OF d] start_idle ..
  have g: "map generated new = [True, True, True]" unfolding new_eq by (rule interest_generated)
  have p: "map priority new = [Some 300, Some 300, Some 300]" unfolding new_eq by (rule interest_priority)
  have l: "length new = 3" using arg_cong [OF g, of length] by simp
  obtain res st' where ev: "evolveStrategy store_idle 777600000 ''great progress'' = (res, st')"
    by (cases "evolveStrategy store_idle 777600000 ''great progress''")
  from evolve_result [OF store_facts(3), of 777600000 "''great progress''"] ev
  have res: "res = Inr \<lparr>strategy_analysis = a, new_tasks = new\<rparr>"
    by (simp add: a_def new_def)
  from C7_evolve_appends [of store_idle 777600000 "''great progress''"]
  have "nodes_of (hta_or_empty (st_hta st')) =
          nodes_of (hta_or_empty (st_hta store_idle)) @ (if st_write_fails store_idle then [] else new)"
    unfolding ev res by simp
  with store_facts(4)
  have doc: "nodes_of (hta_or_empty (st_hta st')) = nodes_of (hta_or_empty (st_hta store_idle)) @ new"
    by simp
  show ?thesis
  proof (intro exI [of _ "\<lparr>strategy_analysis = a, new_tasks = new\<rparr>"] exI [of _ st'] conjI)
    show "evolveStrategy store_idle 777600000 ''great progress''
            = (Inr \<lparr>strategy_analysis = a, new_tasks = new\<rparr>, st')"
      using ev res by simp
    show "length (new_tasks \<lparr>strategy_analysis = a, new_tasks = new\<rparr>) = 3" using l by simp
    show "map generated (new_tasks \<lparr>strategy_analysis = a, new_tasks = new\<rparr>) = [True, True, True]"
      using g by simp
    show "map priority (new_tasks \<lparr>strategy_analysis = a, new_tasks = new\<rparr>)
            = [Some 300, Some 300, Some 300]"
      using p by simp
    show "nodes_of (hta_or_empty (st_hta st'))
            = nodes_of (hta_or_empty (st_hta store_idle)) @ new_tasks \<lparr>strategy_analysis = a, new_tasks = new\<rparr>"
      using doc by simp
  qed
qed
text \<open>
  C10. When no completion lies in the last seven days, the mean energy over the empty window
  is 0, and \<open>detectStuckIndicators\<close> reports \<open>low_engagement\<close> together with
  \<open>no_recent_progress\<close>. So when at least one task is admissible, \<open>evolveStrategy\<close>
  chooses \<open>increase_variety_and_interest\<close>, whatever the feedback.
\<close>

theorem C10_empty_window_low_engagement:
  "(recentCompletions lh now = [] \<longrightarrow>
      avgEngagement (recentCompletions lh now) = 0 \<and>
      ''low_engagement'' \<in> set (detectStuckIndicators h lh now) \<and>
      ''no_recent_progress'' \<in> set (detectStuckIndicators h lh now))
   \<and> (st_config st = Some cfg \<and>
       recentCompletions (history_or_empty (st_history st)) now' = [] \<and>
       getAvailableTasksCount (hta_or_empty (st_hta st)) > 0 \<longrightarrow>
       (\<exists>r. fst (evolveStrategy st now' fb) = Inr r \<and>
            recommendedEvolution (strategy_analysis r) = Some ''increase_variety_and_interest''))"
proof (intro conjI impI)
  assume e: "recentCompletions lh now = []"
  show "avgEngagement (recentCompletions lh now) = 0"
    unfolding e by (rule avgEngagement_empty)
  then have "avgEngagement (recentCompletions lh now) < 2.5" by simp
  then show "''low_engagement'' \<in> set (detectStuckIndicators h lh now)"
    by (simp only: indicator_low_engagement)
  from e show "''no_recent_progress'' \<in> set (detectStuckIndicators h lh now)"
    by (simp only: indicator_no_recent)
next
  assume a: "st_config st = Some cfg \<and>
       recentCompletions (history_or_empty (st_history st)) now' = [] \<and>
       getAvailableTasksCount (hta_or_empty (st_hta st)) > 0"
  let ?a = "analyzeCurrentStrategy (st_hta st) (st_history st) now' fb"
  let ?r = "\<lparr>strategy_analysis = ?a, new_tasks = generateSmartNextTasks cfg (st_hta st) ?a\<rparr>"
  from a have c: "st_config st = Some cfg"
    and e: "recentCompletions (history_or_empty (st_history st)) now' = []"
    and n: "getAvailableTasksCount (hta_or_empty (st_hta st)) \<noteq> 0"
    by simp_all
  have low: "avgEngagement (recentCompletions (history_or_empty (st_history st)) now') < 2.5"
    unfolding e avgEngagement_empty by simp
  have d: "recommendedEvolution ?a = Some ''increase_variety_and_interest''"
    unfolding diagnosis_table using n low by (simp only: if_False if_True)
  show "\<exists>r. fst (evolveStrategy st now' fb) = Inr r \<and>
            recommendedEvolution (strategy_analysis r) = Some ''increase_variety_and_interest''"
  proof (intro exI [of _ ?r] conjI)
    show "fst (evolveStrategy st now' fb) = Inr ?r" by (rule evolve_result [OF c])
    show "recommendedEvolution (strategy_analysis ?r) = Some ''increase_variety_and_interest''"
      using d by simp
  qed
qed

text \<open>On the project whose last completion is nine days old and left the learner at
  energy 5, with a positive feedback.\<close>

theorem C10_empty_window_low_engagement_witness:
  "''low_engagement'' \<in> set (detectStuckIndicators (hta_or_empty (st_hta store_idle))
        (history_or_empty (st_history store_idle)) 777600000)
   \<and> ''no_recent_progress'' \<in> set (detectStuckIndicators (hta_or_empty (st_hta store_idle))
        (history_or_empty (st_history store_idle)) 777600000)
   \<and> (\<exists>r. fst (evolveStrategy store_idle 777600000 ''great progress'') = Inr r \<and>
            recommendedEvolution (strategy_analysis r) = Some ''increase_variety_and_interest'')"
proof -
  have pos: "0 < getAvailableTasksCount (hta_or_empty (st_hta store_idle))"
    by (simp add: count_idle)
  note th = C10_empty_window_low_engagement
    [of "history_or_empty (st_history store_idle)" 777600000 "hta_or_empty (st_hta store_idle)"
        store_idle example_config 777600000 "''great progress''"]
  from th have 1: "recentCompletions (history_or_empty (st_history store_idle)) 777600000 = [] \<longrightarrow>
      avgEngagement (recentCompletions (history_or_empty (st_history store_idle)) 777600000) = 0 \<and>
      ''low_engagement'' \<in> set (detectStuckIndicators (hta_or_empty (st_hta store_idle))
        (history_or_empty (st_history store_idle)) 777600000) \<and>
      ''no_recent_progress'' \<in> set (detectStuckIndicators (hta_or_empty (st_hta store_idle))
        (history_or_empty (st_history store_idle)) 777600000)"
    by (rule conjunct1)
  from th have 2: "st_config store_idle = Some example_config \<and>
       recentCompletions (history_or_empty (st_history store_idle)) 777600000 = [] \<and>
       getAvailableTasksCount (hta_or_empty (st_hta store_idle)) > 0 \<longrightarrow>
       (\<exists>r. fst (evolveStrategy store_idle 777600000 ''great progress'') = Inr r \<and>
            recommendedEvolution (strategy_analysis r) = Some ''increase_variety_and_interest'')"
    by (rule conjunct2)
  note m = mp [OF 1 recent_idle]
  have i: "''low_engagement'' \<in> set (detectStuckIndicators (hta_or_empty (st_hta store_idle))
        (history_or_empty (st_history store_idle)) 777600000)"
    by (rule conjunct1 [OF conjunct2 [OF m]])
  have j: "''no_recent_progress'' \<in> set (detectStuckIndicators (hta_or_empty (st_hta store_idle))
        (history_or_empty (st_history store_idle)) 777600000)"
    by (rule conjunct2 [OF conjunct2 [OF m]])
  have k: "\<exists>r. fst (evolveStrategy store_idle 777600000 ''great progress'') = Inr r \<and>
            recommendedEvolution (strategy_analysis r) = Some ''increase_variety_and_interest''"
    by (rule mp [OF 2 conjI [OF store_facts(3) conjI [OF recent_idle pos]]])
  from i j k show ?thesis by (intro conjI)
qed

subsection \<open>Frontier generation\<close>

lemma set_insert_by: "set (insert_by cmp x ys) = insert x (set ys)"
  by (induction ys) auto

lemma set_sort_by: "set (sort_by cmp xs) = set xs"
  unfolding sort_by_def by (induction xs) (simp_all add: set_insert_by)

lemma title_node_of_task: "title (node_of_task b k (i, t)) = t_title t"
  by (simp add: node_of_task_def)

lemma title_clamp_task: "t_title (clamp_task kl t) = t_title t"
  by (simp add: clamp_task_def)

lemma enumerate_member: "(i, x) \<in> set (enumerate k xs) \<Longrightarrow> x \<in> set xs"
  by (auto simp: in_set_enumerate_eq)

lemma branch_nodes_source:
  assumes "n \<in> set (fst (generateBranchNodesAI b kl done k resp))"
  shows "\<exists>i t. n = node_of_task b k (i, clamp_task kl t) \<and> t_title t \<notin> set done"
proof -
  obtain tasks pending where tp:
    "(case resp of
        RequestForClaude \<Rightarrow>
          ([], [\<lparr>pr_type = ''tasks'', pr_branchId = b_id b, pr_pathName = b_title b\<rparr>])
      | Answer (JsonArray ts) \<Rightarrow> (if ts = [] then generateFallbackTasks b kl else ts, [])
      | _ \<Rightarrow> (generateFallbackTasks b kl, [])) = (tasks, pending)"
    by (cases "(case resp of
        RequestForClaude \<Rightarrow>
          ([], [\<lparr>pr_type = ''tasks'', pr_branchId = b_id b, pr_pathName = b_title b\<rparr>])
      | Answer (JsonArray ts) \<Rightarrow> (if ts = [] then generateFallbackTasks b kl else ts, [])
      | _ \<Rightarrow> (generateFallbackTasks b kl, []))")
  let ?filtered = "map (clamp_task kl) (filter (\<lambda>t. t_title t \<notin> set done) tasks)"
  from assms have "n \<in> set (map (node_of_task b k) (enumerate 0 ?filtered))"
    unfolding generateBranchNodesAI_def Let_def tp by simp
  then obtain i c where ic: "(i, c) \<in> set (enumerate 0 ?filtered)" and n: "n = node_of_task b k (i, c)"
    by auto
  from enumerate_member [OF ic] obtain t where "c = clamp_task kl t" "t_title t \<notin> set done"
    by auto
  with n show ?thesis by blast
qed

lemma branch_nodes_titles:
  "n \<in> set (fst (generateBranchNodesAI b kl done k resp)) \<Longrightarrow> title n \<notin> set done"
  by (auto dest!: branch_nodes_source simp: title_node_of_task title_clamp_task)

lemma branches_loop_source:
  "n \<in> set (fst (branches_loop llm k kl done nodeId bs)) \<Longrightarrow>
     \<exists>b k' start. b \<in> set bs \<and> n \<in> set (fst (generateBranchNodesAI b kl done start (llm k')))"
proof (induction bs arbitrary: k nodeId)
  case Nil
  then show ?case by simp
next
  case (Cons b bs)
  let ?here = "generateBranchNodesAI b kl done nodeId (llm k)"
  let ?rest = "branches_loop llm (Suc k) kl done (nodeId + length (fst ?here)) bs"
  from Cons.prems have "n \<in> set (fst ?here) \<or> n \<in> set (fst ?rest)"
    by (simp add: Let_def case_prod_beta)
  then show ?case
  proof
    assume "n \<in> set (fst ?here)"
    then have "b \<in> set (b # bs) \<and> n \<in> set (fst (generateBranchNodesAI b kl done nodeId (llm k)))"
      by simp
    then show ?thesis by blast
  next
    assume "n \<in> set (fst ?rest)"
    from Cons.IH [OF this] obtain b' k' start where
      "b' \<in> set bs" "n \<in> set (fst (generateBranchNodesAI b' kl done start (llm k')))" by blast
    then have "b' \<in> set (b # bs) \<and> n \<in> set (fst (generateBranchNodesAI b' kl done start (llm k')))"
      by simp
    then show ?thesis by blast
  qed
qed

lemma sequenced_source:
  assumes "n \<in> set (fst (generateSequencedFrontierNodes llm bs kl existing))"
  shows "\<exists>b k' start. b \<in> set bs \<and>
           n \<in> set (fst (generateBranchNodesAI b kl (completed_titles existing) start (llm k')))"
proof -
  from assms have "n \<in> set (fst (branches_loop llm 0 kl (completed_titles existing) 1 bs))"
    by (simp add: generateSequencedFrontierNodes_def Let_def case_prod_beta
          sortNodesBySequence_def set_sort_by)
  then show ?thesis by (rule branches_loop_source)
qed

lemma completed_titles_mem:
  "m \<in> set (nodes_of h) \<Longrightarrow> completed m \<Longrightarrow> title m \<in> set (completed_titles (Some h))"
  by (auto simp: completed_titles_def nodes_of_def split: option.splits)

text \<open>
  C8. When a task of the existing roadmap is completed, no node that the generation over the
  branches returns has its title, and neither has a node that the generation for one branch
  returns, whatever the service answers: the generation for a branch returns no node whose
  title is in the list of completed titles it is given.
\<close>

theorem C8_completed_titles_filtered:
  "(m \<in> set (nodes_of h) \<and> completed m \<longrightarrow>
      (\<forall>n \<in> set (fst (generateSequencedFrontierNodes llm bs kl (Some h))). title n \<noteq> title m) \<and>
      (\<forall>n \<in> set (fst (generateBranchNodesAI b kl (completed_titles (Some h)) start resp)).
          title n \<noteq> title m))
   \<and> (\<forall>n \<in> set (fst (generateBranchNodesAI b kl done start resp)). title n \<notin> set done)"
proof (intro conjI impI ballI)
  fix n
  assume a: "m \<in> set (nodes_of h) \<and> completed m"
    and n: "n \<in> set (fst (generateSequencedFrontierNodes llm bs kl (Some h)))"
  from a have t: "title m \<in> set (completed_titles (Some h))" by (simp add: completed_titles_mem)
  from sequenced_source [OF n] obtain b' k' start' where
    "n \<in> set (fst (generateBranchNodesAI b' kl (completed_titles (Some h)) start' (llm k')))"
    by blast
  then have "title n \<notin> set (completed_titles (Some h))" by (rule branch_nodes_titles)
  with t show "title n \<noteq> title m" by auto
next
  fix n
  assume a: "m \<in> set (nodes_of h) \<and> completed m"
    and n: "n \<in> set (fst (generateBranchNodesAI b kl (completed_titles (Some h)) start resp))"
  from a have t: "title m \<in> set (completed_titles (Some h))" by (simp add: completed_titles_mem)
  from n have "title n \<notin> set (completed_titles (Some h))" by (rule branch_nodes_titles)
  with t show "title n \<noteq> title m" by auto
next
  fix n
  assume "n \<in> set (fst (generateBranchNodesAI b kl done start resp))"
  then show "title n \<notin> set done" by (rule branch_nodes_titles)
qed

lemma example_regeneration:
  "map title (fst (generateSequencedFrontierNodes llm_x_y [example_branch] 1 (Some doc_done_x))) = [''Y'']"
  by code_simp

text \<open>On the roadmap with X completed and a service that proposes X and Y: only Y is
  returned.\<close>

theorem C8_completed_titles_filtered_witness:
  "map title (fst (generateSequencedFrontierNodes llm_x_y [example_branch] 1 (Some doc_done_x))) = [''Y'']
   \<and> ''X'' \<notin> set (map title (fst (generateSequencedFrontierNodes llm_x_y [example_branch] 1 (Some doc_done_x))))"
proof -
  let ?m = "(plain_node ''node_1'' ''X'')\<lparr>completed := True\<rparr>"
  let ?out = "fst (generateSequencedFrontierNodes llm_x_y [example_branch] 1 (Some doc_done_x))"
  have h: "?m \<in> set (nodes_of doc_done_x) \<and> completed ?m"
    by (simp add: doc_done_x_def nodes_of_def plain_node_def)
  have tm: "title ?m = ''X''" by (simp add: plain_node_def)
  note th = C8_completed_titles_filtered
    [of ?m doc_done_x llm_x_y "[example_branch]" 1 example_branch 1 "llm_x_y 0" "[]"]
  from mp [OF conjunct1 [OF th] h] have "\<forall>n \<in> set ?out. title n \<noteq> title ?m"
    by (rule conjunct1)
  then have "''X'' \<notin> set (map title ?out)" unfolding tm by auto
  with example_regeneration show ?thesis by (intro conjI)
qed

subsection \<open>Goal decomposition\<close>

lemma length_enrich_loop: "length (enrich_loop llm k kl bs) = length bs"
  by (induction bs arbitrary: k) simp_all

lemma titles_enrich_loop: "map b_title (enrich_loop llm k kl bs) = map b_title bs"
  by (induction bs arbitrary: k) simp_all

lemma titles_focus: "map b_title (map (focus_branch kl) fs) = map (capitalize \<circ> trim) fs"
  by (simp add: focus_branch_def Let_def comp_def)

lemma titles_domain: "map b_title (map (domain_branch kl) (enumerate k ds)) = ds"
proof -
  have "map (b_title \<circ> domain_branch kl) (enumerate k ds) = map snd (enumerate k ds)"
    by (rule map_cong) (auto simp: domain_branch_def)
  then show ?thesis by simp
qed

lemma branches_focus:
  "fs \<noteq> [] \<Longrightarrow> generateStrategicBranches llm fs kl
                  = enrich_loop llm 0 kl (map (focus_branch kl) fs)"
  by (simp add: generateStrategicBranches_def)

lemma branches_general:
  assumes "\<not> usable_domains (llm 0)"
  shows "generateStrategicBranches llm [] kl
           = enrich_loop llm 1 kl (map (domain_branch kl) (enumerate 0 [''General'']))"
proof (cases "llm 0")
  case NoResponse
  then show ?thesis by (simp add: generateStrategicBranches_def Let_def)
next
  case RequestForClaude
  then show ?thesis by (simp add: generateStrategicBranches_def Let_def)
next
  case (Answer p)
  with assms show ?thesis
    by (cases p) (simp_all add: generateStrategicBranches_def Let_def usable_domains_def)
qed

lemma branches_domains:
  assumes "llm 0 = Answer (JsonArray ds)" "ds \<noteq> []"
  shows "generateStrategicBranches llm [] kl
           = enrich_loop llm 1 kl (map (domain_branch kl) (enumerate 0 ds))"
  using assms by (simp add: generateStrategicBranches_def Let_def)

text \<open>
  C6. \<open>generateStrategicBranches\<close> never returns the empty list, whatever the service
  answers. With focus areas it returns one branch for each of them, titled by the trimmed and
  capitalised area. Without focus areas, when the service yields no usable domains (no
  response, a request to generate out of band, a text that does not parse, a value that is
  not an array, or the empty array), it returns the single branch titled General; when the
  service yields domains, it returns one branch for each.
\<close>

theorem C6_at_least_one_branch:
  "generateStrategicBranches llm fs kl \<noteq> []
   \<and> (fs \<noteq> [] \<longrightarrow>
        length (generateStrategicBranches llm fs kl) = length fs \<and>
        map b_title (generateStrategicBranches llm fs kl) = map (capitalize \<circ> trim) fs)
   \<and> (fs = [] \<and> \<not> usable_domains (llm 0) \<longrightarrow>
        map b_title (generateStrategicBranches llm fs kl) = [''General''])
   \<and> (fs = [] \<and> llm 0 = Answer (JsonArray ds) \<and> ds \<noteq> [] \<longrightarrow>
        map b_title (generateStrategicBranches llm fs kl) = ds)"
proof (intro conjI impI)
  show "generateStrategicBranches llm fs kl \<noteq> []"
  proof (cases "fs = []")
    case False
    then have "length (generateStrategicBranches llm fs kl) = length fs"
      by (simp add: branches_focus length_enrich_loop)
    with False show ?thesis by auto
  next
    case True
    show ?thesis
    proof (cases "usable_domains (llm 0)")
      case False
      have "length (generateStrategicBranches llm [] kl) = 1"
        unfolding branches_general [of llm kl, OF False] length_enrich_loop by simp
      with True show ?thesis by auto
    next
      case u: True
      then obtain ds where d: "llm 0 = Answer (JsonArray ds)" "ds \<noteq> []"
        by (auto simp: usable_domains_def split: ai_response.splits parsed.splits)
      have "length (generateStrategicBranches llm [] kl) = length ds"
        unfolding branches_domains [of llm ds kl, OF d] length_enrich_loop by simp
      with d(2) True show ?thesis by auto
    qed
  qed
next
  assume "fs \<noteq> []"
  then show "length (generateStrategicBranches llm fs kl) = length fs"
    by (simp add: branches_focus length_enrich_loop)
next
  assume ne: "fs \<noteq> []"
  show "map b_title (generateStrategicBranches llm fs kl) = map (capitalize \<circ> trim) fs"
    unfolding branches_focus [OF ne] titles_enrich_loop titles_focus ..
next
  assume a: "fs = [] \<and> \<not> usable_domains (llm 0)"
  then have "generateStrategicBranches llm fs kl
           = enrich_loop llm 1 kl (map (domain_branch kl) (enumerate 0 [''General'']))"
    using branches_general [of llm kl] by simp
  then show "map b_title (generateStrategicBranches llm fs kl) = [''General'']"
    by (simp only: titles_enrich_loop titles_domain)
next
  assume a: "fs = [] \<and> llm 0 = Answer (JsonArray ds) \<and> ds \<noteq> []"
  then have "generateStrategicBranches llm fs kl
           = enrich_loop llm 1 kl (map (domain_branch kl) (enumerate 0 ds))"
    using branches_domains [of llm ds kl] by simp
  then show "map b_title (generateStrategicBranches llm fs kl) = ds"
    by (simp only: titles_enrich_loop titles_domain)
qed

text \<open>On a deferred answer, an unparseable one, an empty array, two domains, and two focus
  areas.\<close>

theorem C6_at_least_one_branch_witness:
  "map b_title (generateStrategicBranches (\<lambda>k. RequestForClaude) [] 1) = [''General'']
   \<and> map b_title (generateStrategicBranches (\<lambda>k. Answer Unparseable) [] 1) = [''General'']
   \<and> map b_title (generateStrategicBranches (\<lambda>k. Answer (JsonArray [])) [] 1) = [''General'']
   \<and> map b_title (generateStrategicBranches (\<lambda>k. Answer (JsonArray [''Rhythm'', ''Harmony''])) [] 1)
        = [''Rhythm'', ''Harmony'']
   \<and> length (generateStrategicBranches (\<lambda>k. NoResponse) [''  jazz piano '', ''blues''] 1) = 2
   \<and> map b_title (generateStrategicBranches (\<lambda>k. NoResponse) [''  jazz piano '', ''blues''] 1)
        = [''Jazz piano'', ''Blues'']"
proof -
  have u: "\<not> usable_domains RequestForClaude" "\<not> usable_domains (Answer Unparseable)"
    "\<not> usable_domains (Answer (JsonArray []))"
    by (simp_all add: usable_domains_def)
  have ne: "[''  jazz piano '', ''blues''] \<noteq> []" "[''Rhythm'', ''Harmony''] \<noteq> []" by simp_all
  have ct: "capitalize (trim ''  jazz piano '') = ''Jazz piano''" "capitalize (trim ''blues'') = ''Blues''"
    by code_simp+
  note g1 = C6_at_least_one_branch [of "\<lambda>k. RequestForClaude" "[]" 1 "[]"]
  note g2 = C6_at_least_one_branch [of "\<lambda>k. Answer Unparseable" "[]" 1 "[]"]
  note g3 = C6_at_least_one_branch [of "\<lambda>k. Answer (JsonArray [])" "[]" 1 "[]"]
  note g4 = C6_at_least_one_branch
    [of "\<lambda>k. Answer (JsonArray [''Rhythm'', ''Harmony''])" "[]" 1 "[''Rhythm'', ''Harmony'']"]
  note g5 = C6_at_least_one_branch [of "\<lambda>k. NoResponse" "[''  jazz piano '', ''blues'']" 1 "[]"]
  have 1: "map b_title (generateStrategicBranches (\<lambda>k. RequestForClaude) [] 1) = [''General'']"
    by (rule mp [OF conjunct1 [OF conjunct2 [OF conjunct2 [OF g1]]] conjI [OF refl u(1)]])
  have 2: "map b_title (generateStrategicBranches (\<lambda>k. Answer Unparseable) [] 1) = [''General'']"
    by (rule mp [OF conjunct1 [OF conjunct2 [OF conjunct2 [OF g2]]] conjI [OF refl u(2)]])
  have 3: "map b_title (generateStrategicBranches (\<lambda>k. Answer (JsonArray [])) [] 1) = [''General'']"
    by (rule mp [OF conjunct1 [OF conjunct2 [OF conjunct2 [OF g3]]] conjI [OF refl u(3)]])
  have 4: "map b_title (generateStrategicBranches (\<lambda>k. Answer (JsonArray [''Rhythm'', ''Harmony''])) [] 1)
        = [''Rhythm'', ''Harmony'']"
    by (rule mp [OF conjunct2 [OF conjunct2 [OF conjunct2 [OF g4]]] conjI [OF refl conjI [OF refl ne(2)]]])
  from mp [OF conjunct1 [OF conjunct2 [OF g5]] ne(1)]
  have 5: "length (generateStrategicBranches (\<lambda>k. NoResponse) [''  jazz piano '', ''blues''] 1) = 2"
    and 6: "map b_title (generateStrategicBranches (\<lambda>k. NoResponse) [''  jazz piano '', ''blues''] 1)
        = [''Jazz piano'', ''Blues'']"
    by (simp_all add: ct)
  from 1 2 3 4 5 6 show ?thesis by (intro conjI)
qed

subsection \<open>Writing and reading a number of minutes\<close>

lemma is_digit_digit_char: "d < 10 \<Longrightarrow> is_digit (digit_char d)"
  by (simp add: is_digit_def digit_char_def Let_def)

lemma digit_val_digit_char: "d < 10 \<Longrightarrow> digit_val (digit_char d) = d"
  by (simp add: digit_val_def digit_char_def)

lemma nat_digits_digits: "list_all is_digit (nat_digits n)"
proof (induction n rule: nat_digits.induct)
  case (1 n)
  show ?case
  proof (cases "n < 10")
    case True
    then show ?thesis by (subst nat_digits.simps) (simp add: is_digit_digit_char)
  next
    case False
    with 1 have "list_all is_digit (nat_digits (n div 10))" by simp
    moreover have "is_digit (digit_char (n mod 10))" by (simp add: is_digit_digit_char)
    ultimately show ?thesis using False by (subst nat_digits.simps) simp
  qed
qed

lemma nat_digits_nonempty: "nat_digits n \<noteq> []"
  by (subst nat_digits.simps) simp

lemma parseInt_snoc: "parseInt (xs @ [c]) = 10 * parseInt xs + digit_val c"
  by (simp add: parseInt_def)

lemma parseInt_nat_digits: "parseInt (nat_digits n) = n"
proof (induction n rule: nat_digits.induct)
  case (1 n)
  show ?case
  proof (cases "n < 10")
    case True
    then show ?thesis
      by (subst nat_digits.simps) (simp add: parseInt_def digit_val_digit_char)
  next
    case False
    with 1 have ih: "parseInt (nat_digits (n div 10)) = n div 10" by simp
    have "parseInt (nat_digits n) = 10 * parseInt (nat_digits (n div 10)) + digit_val (digit_char (n mod 10))"
      using False by (subst nat_digits.simps) (simp add: parseInt_snoc)
    also have "\<dots> = 10 * (n div 10) + n mod 10" by (simp add: ih digit_val_digit_char)
    finally show ?thesis by simp
  qed
qed

lemma space_not_digit: "\<not> is_digit CHR '' ''"
  by (simp add: is_digit_def)

lemma match_here_minutes:
  assumes "ds \<noteq> []" "list_all is_digit ds"
  shows "match_here (ds @ '' minutes'') = Some (ds, ''minute'')"
proof -
  from assms(2) have all: "\<forall>x \<in> set ds. is_digit x" by (simp add: list_all_iff)
  have tw: "takeWhile is_digit (ds @ '' minutes'') = ds"
    using all by (simp add: takeWhile_append2 space_not_digit)
  have dw: "dropWhile is_digit (ds @ '' minutes'') = '' minutes''"
    using all by (simp add: dropWhile_append2 space_not_digit)
  have sp: "dropWhile is_space '' minutes'' = ''minutes''"
    by (simp add: is_space_def)
  have mu: "match_unit ''minutes'' = Some ''minute''"
    by (simp add: match_unit_def ci_match_def)
  show ?thesis unfolding match_here_def Let_def tw dw sp mu using assms(1) by simp
qed

lemma regex_match_minutes:
  assumes "ds \<noteq> []" "list_all is_digit ds"
  shows "regex_match (ds @ '' minutes'') = Some (ds, ''minute'')"
proof -
  from assms(1) obtain c cs where ds: "ds = c # cs" by (cases ds) auto
  have "regex_match ((c # cs) @ '' minutes'') = Some (c # cs, ''minute'')"
    using match_here_minutes [OF assms] unfolding ds by (simp del: match_here_def)
  then show ?thesis unfolding ds .
qed

lemma parse_written_minutes: "parseTimeToMinutes (nat_digits n @ '' minutes'') = n"
  unfolding parseTimeToMinutes_def regex_match_minutes [OF nat_digits_nonempty nat_digits_digits]
  by (simp add: parseInt_nat_digits)

subsection \<open>The text of a whole number\<close>

lemma strip_zeros_pad:
  "strip_zeros ds @ replicate (length ds - length (strip_zeros ds)) CHR ''0'' = ds"
proof -
  let ?P = "\<lambda>c. c = CHR ''0''"
  let ?r = "rev ds"
  have all: "\<forall>x \<in> set (takeWhile ?P ?r). x = CHR ''0''" by (auto dest: set_takeWhileD)
  have tw: "takeWhile ?P ?r = replicate (length (takeWhile ?P ?r)) CHR ''0''"
    using all by (simp add: replicate_length_same)
  have len: "length ds - length (strip_zeros ds) = length (takeWhile ?P ?r)"
  proof -
    have "length ?r = length (takeWhile ?P ?r) + length (dropWhile ?P ?r)"
      by (metis length_append takeWhile_dropWhile_id)
    then show ?thesis by (simp add: strip_zeros_def)
  qed
  have "rev (takeWhile ?P ?r @ dropWhile ?P ?r) = ds"
    by (simp only: takeWhile_dropWhile_id rev_rev_ident)
  then have "ds = rev (dropWhile ?P ?r) @ rev (takeWhile ?P ?r)"
    by (simp only: rev_append)
  also have "rev (dropWhile ?P ?r) = strip_zeros ds" by (simp only: strip_zeros_def)
  also have "rev (takeWhile ?P ?r) = replicate (length (takeWhile ?P ?r)) CHR ''0''"
    using tw by (metis rev_replicate)
  finally show ?thesis by (simp only: len)
qed

lemma length_strip_zeros: "length (strip_zeros ds) \<le> length ds"
  by (simp add: strip_zeros_def length_dropWhile_le [of _ "rev ds", simplified])

lemma positive_text_whole:
  assumes "length (nat_digits m) \<le> 21"
  shows "positive_text m 0 = nat_digits m"
proof -
  let ?ds = "nat_digits m"
  have k: "int (length (strip_zeros ?ds)) \<le> int (length ?ds)"
    using length_strip_zeros [of ?ds] by simp
  have "positive_text m 0
          = strip_zeros ?ds @ replicate (nat (int (length ?ds) - int (length (strip_zeros ?ds)))) CHR ''0''"
    using k assms by (simp add: positive_text_def Let_def)
  also have "nat (int (length ?ds) - int (length (strip_zeros ?ds)))
               = length ?ds - length (strip_zeros ?ds)" by simp
  finally show ?thesis by (simp only: strip_zeros_pad)
qed

lemma length_nat_digits_small: "m < 100 \<Longrightarrow> length (nat_digits m) \<le> 2"
proof -
  assume m: "m < 100"
  show ?thesis
  proof (cases "m < 10")
    case True
    then show ?thesis by (subst nat_digits.simps) simp
  next
    case False
    from m have "m div 10 < 10" by simp
    then have "length (nat_digits (m div 10)) = 1" by (subst nat_digits.simps) simp
    with False show ?thesis by (subst nat_digits.simps) simp
  qed
qed

lemma nat_digits_zero: "nat_digits 0 = ''0''"
  by code_simp

lemma number_text_small:
  assumes "0 \<le> e" "e \<le> 25"
  shows "number_text (Decimal e 0) = nat_digits (nat e)"
proof (cases "e = 0")
  case True
  then show ?thesis by (simp add: number_text_def nat_digits_zero)
next
  case False
  with assms have "nat e < 100" by simp
  then have "length (nat_digits (nat e)) \<le> 21" using length_nat_digits_small [of "nat e"] by simp
  from positive_text_whole [OF this] False assms show ?thesis by (simp add: number_text_def)
qed

lemma js_min_whole: "js_min c (Decimal d 0) = Decimal (min c d) 0"
  by (simp add: js_min_def min_def)

subsection \<open>Clamping for beginners\<close>

lemma branch_nodes_origin:
  assumes "n \<in> set (fst (generateBranchNodesAI b kl done k resp))"
  shows "\<exists>ts i t. resp = Answer (JsonArray ts) \<and> t \<in> set ts \<and>
                 n = node_of_task b k (i, clamp_task kl t)"
proof (cases resp)
  case NoResponse
  with assms show ?thesis by (simp add: generateBranchNodesAI_def generateFallbackTasks_def)
next
  case RequestForClaude
  with assms show ?thesis by (simp add: generateBranchNodesAI_def)
next
  case (Answer p)
  show ?thesis
  proof (cases p)
    case Unparseable
    with Answer assms show ?thesis by (simp add: generateBranchNodesAI_def generateFallbackTasks_def)
  next
    case NotAnArray
    with Answer assms show ?thesis by (simp add: generateBranchNodesAI_def generateFallbackTasks_def)
  next
    case (JsonArray ts)
    let ?filtered = "map (clamp_task kl) (filter (\<lambda>t. t_title t \<notin> set done) ts)"
    from assms Answer JsonArray
    have "n \<in> set (map (node_of_task b k) (enumerate 0 ?filtered))"
      by (cases "ts = []") (simp_all add: generateBranchNodesAI_def generateFallbackTasks_def)
    then obtain i c where ic: "(i, c) \<in> set (enumerate 0 ?filtered)"
      and n: "n = node_of_task b k (i, c)" by auto
    from enumerate_member [OF ic] obtain t where "t \<in> set ts" "c = clamp_task kl t" by auto
    with n Answer JsonArray show ?thesis by blast
  qed
qed

lemma beginner_node:
  assumes "kl \<le> 2"
  shows "difficulty (node_of_task b k (i, clamp_task kl t)) = Some 1"
    and "title (node_of_task b k (i, clamp_task kl t)) = t_title t"
  using assms by (simp_all add: node_of_task_def clamp_task_def difficulty_or_def)

lemma beginner_whole:
  assumes "kl \<le> 2" "t_duration t = DurationNumber (Decimal d 0)" "0 \<le> d"
  shows "duration (node_of_task b k (i, clamp_task kl t))
           = Some (nat_digits (nat (min 25 d)) @ '' minutes'')"
    and "minutes_of (node_of_task b k (i, clamp_task kl t)) = nat (min 25 d)"
proof -
  have m: "0 \<le> min 25 d" "min 25 d \<le> 25" using assms(3) by simp_all
  show d: "duration (node_of_task b k (i, clamp_task kl t))
           = Some (nat_digits (nat (min 25 d)) @ '' minutes'')"
    using assms(1,2)
    by (simp add: node_of_task_def clamp_task_def cap_duration_def js_min_whole
          number_text_small [OF m])
  show "minutes_of (node_of_task b k (i, clamp_task kl t)) = nat (min 25 d)"
    by (simp add: minutes_of_def duration_or_default_def d nat_digits_nonempty parse_written_minutes)
qed

lemma beginner_missing:
  assumes "kl \<le> 2" "t_duration t = DurationMissing"
  shows "duration (node_of_task b k (i, clamp_task kl t)) = Some ''30 minutes''"
    and "minutes_of (node_of_task b k (i, clamp_task kl t)) = 30"
proof -
  show d: "duration (node_of_task b k (i, clamp_task kl t)) = Some ''30 minutes''"
    using assms by (simp add: node_of_task_def clamp_task_def cap_duration_def)
  show "minutes_of (node_of_task b k (i, clamp_task kl t)) = 30"
    by (simp add: minutes_of_def duration_or_default_def d parse_30_minutes)
qed

text \<open>
  C3, as amended. At knowledge level 1 or 2 every node that the generation for a branch
  returns has difficulty 1, whatever the service answers, and comes from a task of the
  service's array, whose title it keeps. When that task proposes a whole number of minutes
  that is not negative, the duration of the node is the smaller of 25 and that number,
  written as minutes, so it reads back as at most 25 minutes. When that task proposes no
  duration, the duration of the node is "30 minutes".
\<close>

theorem C3_beginner_clamping:
  "kl \<le> 2 \<and> n \<in> set (fst (generateBranchNodesAI b kl done start resp)) \<longrightarrow>
      difficulty n = Some 1 \<and>
      (\<exists>ts t. resp = Answer (JsonArray ts) \<and> t \<in> set ts \<and> title n = t_title t \<and>
         (\<forall>d. t_duration t = DurationNumber (Decimal d 0) \<and> 0 \<le> d \<longrightarrow>
               duration n = Some (nat_digits (nat (min 25 d)) @ '' minutes'') \<and>
               minutes_of n = nat (min 25 d) \<and> minutes_of n \<le> 25) \<and>
         (t_duration t = DurationMissing \<longrightarrow>
               duration n = Some ''30 minutes'' \<and> minutes_of n = 30))"
proof
  assume a: "kl \<le> 2 \<and> n \<in> set (fst (generateBranchNodesAI b kl done start resp))"
  then have kl: "kl \<le> 2" and mem: "n \<in> set (fst (generateBranchNodesAI b kl done start resp))"
    by simp_all
  from branch_nodes_origin [OF mem] obtain ts i t where
    o: "resp = Answer (JsonArray ts)" "t \<in> set ts" "n = node_of_task b start (i, clamp_task kl t)"
    by blast
  have diff: "difficulty n = Some 1" unfolding o(3) by (rule beginner_node(1) [OF kl])
  have ti: "title n = t_title t" unfolding o(3) by (rule beginner_node(2) [OF kl])
  have num: "\<forall>d. t_duration t = DurationNumber (Decimal d 0) \<and> 0 \<le> d \<longrightarrow>
               duration n = Some (nat_digits (nat (min 25 d)) @ '' minutes'') \<and>
               minutes_of n = nat (min 25 d) \<and> minutes_of n \<le> 25"
  proof (intro allI impI)
    fix d
    assume h: "t_duration t = DurationNumber (Decimal d 0) \<and> 0 \<le> d"
    then have h1: "t_duration t = DurationNumber (Decimal d 0)" and h2: "0 \<le> d" by simp_all
    have 1: "duration n = Some (nat_digits (nat (min 25 d)) @ '' minutes'')"
      unfolding o(3) by (rule beginner_whole(1) [OF kl h1 h2])
    have 2: "minutes_of n = nat (min 25 d)"
      unfolding o(3) by (rule beginner_whole(2) [OF kl h1 h2])
    have 3: "minutes_of n \<le> 25" unfolding 2 by simp
    from 1 2 3 show "duration n = Some (nat_digits (nat (min 25 d)) @ '' minutes'') \<and>
               minutes_of n = nat (min 25 d) \<and> minutes_of n \<le> 25"
      by (intro conjI)
  qed
  have mis: "t_duration t = DurationMissing \<longrightarrow>
               duration n = Some ''30 minutes'' \<and> minutes_of n = 30"
  proof
    assume h: "t_duration t = DurationMissing"
    show "duration n = Some ''30 minutes'' \<and> minutes_of n = 30"
      unfolding o(3) using beginner_missing [OF kl h] by (intro conjI)
  qed
  have "\<exists>ts t. resp = Answer (JsonArray ts) \<and> t \<in> set ts \<and> title n = t_title t \<and>
         (\<forall>d. t_duration t = DurationNumber (Decimal d 0) \<and> 0 \<le> d \<longrightarrow>
               duration n = Some (nat_digits (nat (min 25 d)) @ '' minutes'') \<and>
               minutes_of n = nat (min 25 d) \<and> minutes_of n \<le> 25) \<and>
         (t_duration t = DurationMissing \<longrightarrow>
               duration n = Some ''30 minutes'' \<and> minutes_of n = 30)"
    using o(1,2) ti num mis by (intro exI [of _ ts] exI [of _ t] conjI)
  with diff show "difficulty n = Some 1 \<and>
      (\<exists>ts t. resp = Answer (JsonArray ts) \<and> t \<in> set ts \<and> title n = t_title t \<and>
         (\<forall>d. t_duration t = DurationNumber (Decimal d 0) \<and> 0 \<le> d \<longrightarrow>
               duration n = Some (nat_digits (nat (min 25 d)) @ '' minutes'') \<and>
               minutes_of n = nat (min 25 d) \<and> minutes_of n \<le> 25) \<and>
         (t_duration t = DurationMissing \<longrightarrow>
               duration n = Some ''30 minutes'' \<and> minutes_of n = 30))"
    by (rule conjI)
qed

lemma overlong_member:
  "node_of_task example_branch 1 (0, clamp_task 1 task_120)
     \<in> set (fst (generateBranchNodesAI example_branch 1 [] 1 oracle_overlong))"
  by code_simp

lemma digits_25: "nat_digits 25 = ''25''"
  by code_simp

text \<open>On the service that proposes difficulty 5 and 120 minutes: the node has difficulty 1
  and lasts "25 minutes".\<close>

theorem C3_beginner_clamping_witness:
  "difficulty (node_of_task example_branch 1 (0, clamp_task 1 task_120)) = Some 1
   \<and> duration (node_of_task example_branch 1 (0, clamp_task 1 task_120)) = Some ''25 minutes''
   \<and> minutes_of (node_of_task example_branch 1 (0, clamp_task 1 task_120)) = 25"
proof -
  let ?n = "node_of_task example_branch 1 (0, clamp_task 1 task_120)"
  have kl: "(1::int) \<le> 2" by simp
  from mp [OF C3_beginner_clamping [of 1 ?n example_branch "[]" 1 oracle_overlong]
              conjI [OF kl overlong_member]]
  have diff: "difficulty ?n = Some 1"
    and ex: "\<exists>ts t. oracle_overlong = Answer (JsonArray ts) \<and> t \<in> set ts \<and> title ?n = t_title t \<and>
         (\<forall>d. t_duration t = DurationNumber (Decimal d 0) \<and> 0 \<le> d \<longrightarrow>
               duration ?n = Some (nat_digits (nat (min 25 d)) @ '' minutes'') \<and>
               minutes_of ?n = nat (min 25 d) \<and> minutes_of ?n \<le> 25) \<and>
         (t_duration t = DurationMissing \<longrightarrow>
               duration ?n = Some ''30 minutes'' \<and> minutes_of ?n = 30)"
    by (rule conjunct1, rule conjunct2)
  from ex obtain ts t where ts: "oracle_overlong = Answer (JsonArray ts)" and t: "t \<in> set ts"
    and num: "\<forall>d. t_duration t = DurationNumber (Decimal d 0) \<and> 0 \<le> d \<longrightarrow>
               duration ?n = Some (nat_digits (nat (min 25 d)) @ '' minutes'') \<and>
               minutes_of ?n = nat (min 25 d) \<and> minutes_of ?n \<le> 25"
    by (elim exE conjE)
  from ts have "ts = [task_120]" by (simp add: oracle_overlong_def)
  with t have "t = task_120" by simp
  then have td: "t_duration t = DurationNumber (Decimal 120 0) \<and> (0::int) \<le> 120"
    by (simp add: task_120_def plain_task_def)
  from mp [OF spec [OF num, of 120] td]
  have "duration ?n = Some (nat_digits (nat (min 25 120)) @ '' minutes'')"
    and "minutes_of ?n = nat (min 25 120)"
    by (rule conjunct1, rule conjunct1 [OF conjunct2])
  then have "duration ?n = Some ''25 minutes''" and "minutes_of ?n = 25"
    by (simp_all add: digits_25)
  with diff show ?thesis by (intro conjI)
qed

lemma no_duration_nodes:
  "map difficulty (fst (generateBranchNodesAI example_branch 1 [] 1 oracle_no_duration)) = [Some 1]"
  "map duration (fst (generateBranchNodesAI example_branch 1 [] 1 oracle_no_duration))
     = [Some ''30 minutes'']"
  "map minutes_of (fst (generateBranchNodesAI example_branch 1 [] 1 oracle_no_duration)) = [30]"
  by code_simp+

text \<open>At knowledge level 1 the node made from a task without a duration lasts 30 minutes,
  more than 25.\<close>

theorem C3_beginner_clamping_counterexample:
  "map duration (fst (generateBranchNodesAI example_branch 1 [] 1 oracle_no_duration))
     = [Some ''30 minutes'']
   \<and> map minutes_of (fst (generateBranchNodesAI example_branch 1 [] 1 oracle_no_duration)) = [30]
   \<and> \<not> (30::nat) \<le> 25"
  using no_duration_nodes by simp

text \<open>A fraction keeps its digits: 24.75 is below the cap and is written as it is, and the
  pattern of the selector reads the digits after the point.\<close>

lemma fractional_duration:
  "number_text (js_min 25 (Decimal 2475 2)) = ''24.75''"
  "parseTimeToMinutes (number_text (js_min 25 (Decimal 2475 2)) @ '' minutes'') = 75"
  by code_simp+

end
